theory Spec2Isabelle
  imports Main "HOL-Library.Char_ord" "HOL-Library.List_Lexorder"
begin

section \<open>Strings, the process environment and paths\<close>

text \<open>
  The relocation layer (\<^verbatim>\<open>relenv/runtime.py\<close>) is Python. A \<^verbatim>\<open>str\<close> is a
  \<^typ>\<open>string\<close>; \<^verbatim>\<open>os.environ\<close> is a partial map from names to values;
  \<^verbatim>\<open>sys.platform\<close> is a string that the functions take as an argument.

  \<^verbatim>\<open>debug(string)\<close> prints its argument when \<^verbatim>\<open>RELENV_DEBUG\<close> is truthy and has
  no other effect. The components that only compute a value (the root resolver, the
  shebang builder, the configuration wrappers, the importer) are modelled without
  the printed lines; the components whose behaviour on a failure is to print and go
  on (the bootstrap and the two installer wrappers) carry the printed lines.
\<close>

type_synonym environ = "string \<rightharpoonup> string"

text \<open>\<^verbatim>\<open>os.environ.get(name)\<close> used as a condition: true when the variable is set to
  a non-empty string (an empty string is falsy in Python).\<close>

definition environ_get_truthy :: "environ \<Rightarrow> string \<Rightarrow> bool" where
  "environ_get_truthy env name = (case env name of None \<Rightarrow> False | Some v \<Rightarrow> v \<noteq> [])"

text \<open>\<^verbatim>\<open>name in os.environ\<close>.\<close>

definition environ_contains :: "environ \<Rightarrow> string \<Rightarrow> bool" where
  "environ_contains env name = (case env name of None \<Rightarrow> False | Some v \<Rightarrow> True)"

text \<open>\<^verbatim>\<open>s.startswith(p)\<close>.\<close>

fun startswith :: "string \<Rightarrow> string \<Rightarrow> bool" where
  "startswith s [] = True"
| "startswith [] (p # ps) = False"
| "startswith (c # cs) (p # ps) = (c = p \<and> startswith cs ps)"

text \<open>\<^verbatim>\<open>s.endswith(p)\<close>.\<close>

definition endswith :: "string \<Rightarrow> string \<Rightarrow> bool" where
  "endswith s p = startswith (rev s) (rev p)"

text \<open>\<^verbatim>\<open>s.split(sep)\<close> for a one-character separator: the fields between the
  separators, always at least one field.\<close>

fun split_on :: "char \<Rightarrow> string \<Rightarrow> string list" where
  "split_on sep [] = [[]]"
| "split_on sep (c # cs) =
     (if c = sep then [] # split_on sep cs
      else (case split_on sep cs of
              [] \<Rightarrow> [[c]]
            | f # fs \<Rightarrow> (c # f) # fs))"

text \<open>
  A \<^verbatim>\<open>pathlib\<close> path: its anchor (empty for a relative path, \<^verbatim>\<open>/\<close> or \<^verbatim>\<open>//\<close>
  for an absolute POSIX path, a drive and root on the windows-style platform) and
  its components below the anchor.
\<close>

datatype path = Path (anchor: string) (parts: "string list")

text \<open>\<^verbatim>\<open>p.parent\<close>: the path without its last component; a path with no component
  is its own parent.\<close>

definition parent :: "path \<Rightarrow> path" where
  "parent p = Path (anchor p) (butlast (parts p))"

text \<open>\<^verbatim>\<open>p.name\<close>: the last component, empty when there is none.\<close>

definition path_name :: "path \<Rightarrow> string" where
  "path_name p = (if parts p = [] then [] else last (parts p))"

text \<open>\<^verbatim>\<open>p / q\<close> for two paths: an anchored right operand replaces the left one.\<close>

definition joinpath :: "path \<Rightarrow> path \<Rightarrow> path" where
  "joinpath p q = (if anchor q \<noteq> [] then q else Path (anchor p) (parts p @ parts q))"

text \<open>\<^verbatim>\<open>pathlib.Path(s)\<close> on the POSIX flavour: a leading slash is the root (exactly
  two leading slashes are kept as a root of their own), empty components and
  \<^verbatim>\<open>.\<close> components are dropped.\<close>

definition posix_root :: "string \<Rightarrow> string" where
  "posix_root s =
     (if startswith s ''//'' \<and> \<not> startswith s ''///'' then ''//''
      else if startswith s ''/'' then ''/''
      else [])"

definition path_of_str :: "string \<Rightarrow> path" where
  "path_of_str s =
     Path (posix_root s) (filter (\<lambda>c. c \<noteq> [] \<and> c \<noteq> ''.'') (split_on (CHR ''/'') s))"

text \<open>\<^verbatim>\<open>p / s\<close> for a path and a string.\<close>

definition joinstr :: "path \<Rightarrow> string \<Rightarrow> path" where
  "joinstr p s = joinpath p (path_of_str s)"

fun intercalate :: "string \<Rightarrow> string list \<Rightarrow> string" where
  "intercalate sep [] = []"
| "intercalate sep [x] = x"
| "intercalate sep (x # y # ys) = x @ sep @ intercalate sep (y # ys)"

text \<open>\<^verbatim>\<open>str(p)\<close> on the POSIX flavour.\<close>

definition str_of_path :: "path \<Rightarrow> string" where
  "str_of_path p =
     (if anchor p = [] \<and> parts p = [] then ''.''
      else anchor p @ intercalate ''/'' (parts p))"

section \<open>Root resolver\<close>

text \<open>
  \<^verbatim>\<open>relenv_root()\<close> reads \<^verbatim>\<open>sys.platform\<close> and the constant \<^verbatim>\<open>MODULE_DIR\<close> of
  \<^verbatim>\<open>relenv.common\<close> (the directory of the relenv package); both are arguments here.
\<close>

definition relenv_root :: "string \<Rightarrow> path \<Rightarrow> path" where
  "relenv_root platform MODULE_DIR =
     (if platform = ''win32'' then parent (parent (parent MODULE_DIR))
      else parent (parent (parent (parent MODULE_DIR))))"

section \<open>Shebang builder\<close>

text \<open>
  \<^verbatim>\<open>_build_shebang(*args, **kwargs)\<close> ignores its arguments (\<open>args\<close> here). The
  formatter \<^verbatim>\<open>format_shebang\<close> comes from \<^verbatim>\<open>relenv.common\<close> and is an argument.
  \<^verbatim>\<open>.encode()\<close> turns the text into bytes; a \<^typ>\<open>string\<close> is a list of bytes
  already.
\<close>

definition encode :: "string \<Rightarrow> string" where
  "encode s = s"

definition shebang_windows_pip_dir :: string where
  "shebang_windows_pip_dir =
     ''#!<launcher_dir>'' @ [CHR 0x5C] @ ''Scripts'' @ [CHR 0x5C] @ ''python.exe''"

definition shebang_windows :: string where
  "shebang_windows = ''#!<launcher_dir>'' @ [CHR 0x5C] @ ''python.exe''"

definition build_shebang ::
  "string \<Rightarrow> environ \<Rightarrow> (string \<Rightarrow> string) \<Rightarrow> 'a \<Rightarrow> string" where
  "build_shebang platform env format_shebang args =
     (if platform = ''win32'' then
        (if environ_get_truthy env ''RELENV_PIP_DIR'' then encode shebang_windows_pip_dir
         else encode shebang_windows)
      else if environ_get_truthy env ''RELENV_PIP_DIR'' then
        encode (format_shebang ''/bin/python3'')
      else encode (format_shebang ''/python3''))"

section \<open>Configuration-variable wrapper\<close>

text \<open>
  \<^verbatim>\<open>get_config_var_wrapper(func)\<close> returns \<^verbatim>\<open>wrapped\<close>. The wrapped accessor
  returns a path for \<^verbatim>\<open>BINDIR\<close> and whatever \<^verbatim>\<open>func\<close> returns for any other name.
\<close>

datatype 'v config_value = Relocated path | Passed 'v

definition get_config_var_wrapper ::
  "string \<Rightarrow> environ \<Rightarrow> path \<Rightarrow> (string \<Rightarrow> 'v) \<Rightarrow> string \<Rightarrow> 'v config_value" where
  "get_config_var_wrapper platform env MODULE_DIR func name =
     (if name = ''BINDIR'' then
        (if environ_get_truthy env ''RELENV_PIP_DIR'' then
           Relocated (relenv_root platform MODULE_DIR)
         else Relocated (joinstr (relenv_root platform MODULE_DIR) ''Scripts''))
      else Passed (func name))"

text \<open>A sample formatter and a sample install location, to evaluate the definitions
  on concrete inputs.\<close>

definition sample_format_shebang :: "string \<Rightarrow> string" where
  "sample_format_shebang python = ''#!/bin/sh exec $(dirname $0)'' @ python"

definition sample_module_dir :: path where
  "sample_module_dir =
     Path ''/'' [''opt'', ''relenv'', ''lib'', ''python3.10'', ''site-packages'', ''relenv'']"

definition sample_config_var :: "string \<Rightarrow> string" where
  "sample_config_var name = ''/build/'' @ name"

section \<open>Import interceptor\<close>

text \<open>
  Errors that the modelled code can raise.
\<close>

datatype error =
    ModuleNotFoundError string
  | AttributeError string
  | UnboundLocalError string
  | ValueError string
  | IndexError
  | FileNotFoundError string

text \<open>
  The objects that the patches read and write are attributes of module objects. An
  attribute value is the host's own object (\<open>Original module attribute\<close>),
  \<^verbatim>\<open>True\<close>, the result of one of the wrapper constructors of the layer applied to the
  object it wraps, or the layer's \<^verbatim>\<open>_build_shebang\<close>. A module object is a map from
  attribute names to values; the attribute of a class of the module is written with
  a dot (\<^verbatim>\<open>ScriptMaker._build_shebang\<close>).
\<close>

datatype pyobj =
    Original string string
  | PyTrue
  | GetConfigVarWrapper pyobj
  | GetPathsWrapper pyobj string
  | FinalizeOptionsWrapper pyobj
  | InstallWheelWrapper pyobj
  | InstallLegacyWrapper pyobj
  | BuildShebang

type_synonym pymodule = "string \<rightharpoonup> pyobj"

text \<open>
  The host: the modules that the default finders can load, each with the attributes
  it defines, and the scheme name that its default-scheme accessor returns.
\<close>

record host =
  host_modules :: "string \<rightharpoonup> pymodule"
  default_scheme :: string

text \<open>
  The interpreter state that \<^verbatim>\<open>RelenvImporter\<close> reads and writes: the six flags of
  the importer, \<^verbatim>\<open>sys.modules\<close> (from a name to the module object bound to it; module
  objects are named by the module the default finders loaded them from) and the
  attributes of each module object.
\<close>

record interp =
  loading_pip_scripts :: bool
  loading_sysconfig_data :: bool
  loading_sysconfig :: bool
  loading_distutils :: bool
  loading_op_wheel :: bool
  loading_op_legacy :: bool
  sys_modules :: "string \<rightharpoonup> string"
  heap :: "string \<Rightarrow> pymodule"

definition initial :: interp where
  "initial = \<lparr>loading_pip_scripts = False, loading_sysconfig_data = False,
     loading_sysconfig = False, loading_distutils = False, loading_op_wheel = False,
     loading_op_legacy = False, sys_modules = Map.empty, heap = (\<lambda>m. Map.empty)\<rparr>"

definition getattr :: "interp \<Rightarrow> string \<Rightarrow> string \<Rightarrow> pyobj option" where
  "getattr s md a = heap s md a"

definition setattr :: "interp \<Rightarrow> string \<Rightarrow> string \<Rightarrow> pyobj \<Rightarrow> interp" where
  "setattr s md a v = s\<lparr>heap := (heap s)(md := (heap s md)(a \<mapsto> v))\<rparr>"

text \<open>
  \<^verbatim>\<open>RelenvImporter.find_module(module_name)\<close>: \<open>True\<close> stands for returning the
  importer, \<open>False\<close> for returning \<^verbatim>\<open>None\<close>.
\<close>

definition find_module :: "interp \<Rightarrow> string \<Rightarrow> bool \<times> interp" where
  "find_module s module_name =
     (if startswith module_name ''sysconfig'' then
        (if loading_sysconfig s then (False, s)
         else (True, s\<lparr>loading_sysconfig := True\<rparr>))
      else if module_name = ''pip._vendor.distlib.scripts'' then
        (if loading_pip_scripts s then (False, s)
         else (True, s\<lparr>loading_pip_scripts := True\<rparr>))
      else if module_name = ''distutils.command.build_ext'' then
        (if loading_distutils s then (False, s)
         else (True, s\<lparr>loading_distutils := True\<rparr>))
      else if module_name = ''pip._internal.operations.install.wheel'' then
        (if loading_op_wheel s then (False, s)
         else (True, s\<lparr>loading_op_wheel := True\<rparr>))
      else if module_name = ''pip._internal.operations.install.legacy'' then
        (if loading_op_legacy s then (False, s)
         else (True, s\<lparr>loading_op_legacy := True\<rparr>))
      else (False, s))"

text \<open>
  The default finders, reached when the importer declines: the host's module is
  loaded and bound to its name, or the import fails.
\<close>

definition default_import :: "host \<Rightarrow> interp \<Rightarrow> string \<Rightarrow> (error + string) \<times> interp" where
  "default_import h s n =
     (case host_modules h n of
        None \<Rightarrow> (Inl (ModuleNotFoundError n), s)
      | Some m \<Rightarrow> (Inr n, s\<lparr>sys_modules := (sys_modules s)(n \<mapsto> n), heap := (heap s)(n := m)\<rparr>))"

text \<open>
  The body of each branch of \<^verbatim>\<open>load_module\<close> after its import, up to the reset of
  the flag. The result carries the state also when an attribute is missing, since
  the assignments made before the error stay.

  \<^verbatim>\<open>sysconfig\<close>: \<^verbatim>\<open>get_config_var\<close> is wrapped, \<^verbatim>\<open>_PIP_USE_SYSCONFIG\<close> is set, the
  default scheme is read from \<^verbatim>\<open>get_default_scheme\<close> or, when that is missing, from
  \<^verbatim>\<open>_get_default_scheme\<close>, and \<^verbatim>\<open>get_paths\<close> is wrapped.
\<close>

definition get_scheme :: "host \<Rightarrow> interp \<Rightarrow> string \<Rightarrow> error + string" where
  "get_scheme h s md =
     (if getattr s md ''get_default_scheme'' \<noteq> None then Inr (default_scheme h)
      else if getattr s md ''_get_default_scheme'' \<noteq> None then Inr (default_scheme h)
      else Inl (AttributeError ''_get_default_scheme''))"

definition patch_sysconfig :: "host \<Rightarrow> interp \<Rightarrow> string \<Rightarrow> error option \<times> interp" where
  "patch_sysconfig h s md =
     (case getattr s md ''get_config_var'' of
        None \<Rightarrow> (Some (AttributeError ''get_config_var''), s)
      | Some f \<Rightarrow>
          (let s1 = setattr (setattr s md ''get_config_var'' (GetConfigVarWrapper f))
                      md ''_PIP_USE_SYSCONFIG'' PyTrue
           in case get_scheme h s1 md of
                Inl e \<Rightarrow> (Some e, s1)
              | Inr scheme \<Rightarrow>
                  (case getattr s1 md ''get_paths'' of
                     None \<Rightarrow> (Some (AttributeError ''get_paths''), s1)
                   | Some g \<Rightarrow> (None, setattr s1 md ''get_paths'' (GetPathsWrapper g scheme)))))"

text \<open>\<^verbatim>\<open>mod.ScriptMaker._build_shebang = _build_shebang\<close>: a plain assignment.\<close>

definition patch_scripts :: "interp \<Rightarrow> string \<Rightarrow> error option \<times> interp" where
  "patch_scripts s md =
     (case getattr s md ''ScriptMaker'' of
        None \<Rightarrow> (Some (AttributeError ''ScriptMaker''), s)
      | Some c \<Rightarrow> (None, setattr s md ''ScriptMaker._build_shebang'' BuildShebang))"

text \<open>\<^verbatim>\<open>mod.build_ext.finalize_options = finalize_options_wrapper(mod.build_ext.finalize_options)\<close>.\<close>

definition patch_build_ext :: "interp \<Rightarrow> string \<Rightarrow> error option \<times> interp" where
  "patch_build_ext s md =
     (case getattr s md ''build_ext'' of
        None \<Rightarrow> (Some (AttributeError ''build_ext''), s)
      | Some c \<Rightarrow>
          (case getattr s md ''build_ext.finalize_options'' of
             None \<Rightarrow> (Some (AttributeError ''finalize_options''), s)
           | Some f \<Rightarrow>
               (None, setattr s md ''build_ext.finalize_options'' (FinalizeOptionsWrapper f))))"

text \<open>\<^verbatim>\<open>mod.install_wheel = install_wheel_wrapper(mod.install_wheel)\<close>.\<close>

definition patch_wheel :: "interp \<Rightarrow> string \<Rightarrow> error option \<times> interp" where
  "patch_wheel s md =
     (case getattr s md ''install_wheel'' of
        None \<Rightarrow> (Some (AttributeError ''install_wheel''), s)
      | Some f \<Rightarrow> (None, setattr s md ''install_wheel'' (InstallWheelWrapper f)))"

text \<open>\<^verbatim>\<open>mod.install = install_legacy_wrapper(mod.install)\<close>.\<close>

definition patch_legacy :: "interp \<Rightarrow> string \<Rightarrow> error option \<times> interp" where
  "patch_legacy s md =
     (case getattr s md ''install'' of
        None \<Rightarrow> (Some (AttributeError ''install''), s)
      | Some f \<Rightarrow> (None, setattr s md ''install'' (InstallLegacyWrapper f)))"

text \<open>\<^verbatim>\<open>sys.modules[name] = mod; return mod\<close>.\<close>

definition store_module :: "interp \<Rightarrow> string \<Rightarrow> string \<Rightarrow> (error + string) \<times> interp" where
  "store_module s name md = (Inr md, s\<lparr>sys_modules := (sys_modules s)(name \<mapsto> md)\<rparr>)"

text \<open>
  The five branches of \<^verbatim>\<open>load_module\<close>, each applied to the outcome of its import:
  an exception of the import propagates; otherwise the module is patched, the flag
  is set back to \<open>False\<close> (the branch of \<^verbatim>\<open>distutils.command.build_ext\<close> has no such
  assignment) and the module is stored.
\<close>

definition load_sysconfig ::
  "host \<Rightarrow> string \<Rightarrow> (error + string) \<times> interp \<Rightarrow> (error + string) \<times> interp" where
  "load_sysconfig h name r =
     (case r of
        (Inl e, s1) \<Rightarrow> (Inl e, s1)
      | (Inr md, s1) \<Rightarrow>
          (case patch_sysconfig h s1 md of
             (Some e, s2) \<Rightarrow> (Inl e, s2)
           | (None, s2) \<Rightarrow> store_module (s2\<lparr>loading_sysconfig := False\<rparr>) name md))"

definition load_scripts ::
  "string \<Rightarrow> (error + string) \<times> interp \<Rightarrow> (error + string) \<times> interp" where
  "load_scripts name r =
     (case r of
        (Inl e, s1) \<Rightarrow> (Inl e, s1)
      | (Inr md, s1) \<Rightarrow>
          (case patch_scripts s1 md of
             (Some e, s2) \<Rightarrow> (Inl e, s2)
           | (None, s2) \<Rightarrow> store_module (s2\<lparr>loading_pip_scripts := False\<rparr>) name md))"

definition load_build_ext ::
  "string \<Rightarrow> (error + string) \<times> interp \<Rightarrow> (error + string) \<times> interp" where
  "load_build_ext name r =
     (case r of
        (Inl e, s1) \<Rightarrow> (Inl e, s1)
      | (Inr md, s1) \<Rightarrow>
          (case patch_build_ext s1 md of
             (Some e, s2) \<Rightarrow> (Inl e, s2)
           | (None, s2) \<Rightarrow> store_module s2 name md))"

definition load_wheel ::
  "string \<Rightarrow> (error + string) \<times> interp \<Rightarrow> (error + string) \<times> interp" where
  "load_wheel name r =
     (case r of
        (Inl e, s1) \<Rightarrow> (Inl e, s1)
      | (Inr md, s1) \<Rightarrow>
          (case patch_wheel s1 md of
             (Some e, s2) \<Rightarrow> (Inl e, s2)
           | (None, s2) \<Rightarrow> store_module (s2\<lparr>loading_op_wheel := False\<rparr>) name md))"

definition load_legacy ::
  "string \<Rightarrow> (error + string) \<times> interp \<Rightarrow> (error + string) \<times> interp" where
  "load_legacy name r =
     (case r of
        (Inl e, s1) \<Rightarrow> (Inl e, s1)
      | (Inr md, s1) \<Rightarrow>
          (case patch_legacy s1 md of
             (Some e, s2) \<Rightarrow> (Inl e, s2)
           | (None, s2) \<Rightarrow> store_module (s2\<lparr>loading_op_legacy := False\<rparr>) name md))"

text \<open>
  \<^verbatim>\<open>importlib.import_module(n)\<close> with the importer first on \<^verbatim>\<open>sys.meta_path\<close>, and
  \<^verbatim>\<open>RelenvImporter.load_module(name)\<close>, which calls it. An import returns the module
  bound in \<^verbatim>\<open>sys.modules\<close> when there is one; otherwise it asks the importer, and
  calls \<^verbatim>\<open>load_module\<close> when the importer matches and the default finders when it
  declines. A name that matches no branch of \<^verbatim>\<open>load_module\<close> leaves \<^verbatim>\<open>mod\<close> unbound.
  The imports of parent packages and the imports that a module's own body makes are
  not part of the model.

  The recursion ends because a match sets a flag that was not set, and
  \<^verbatim>\<open>load_module\<close> imports before it resets any flag.
\<close>

definition unset_flags :: "interp \<Rightarrow> nat" where
  "unset_flags s =
     (if loading_sysconfig s then 0 else 1) + (if loading_pip_scripts s then 0 else 1) +
     (if loading_distutils s then 0 else 1) + (if loading_op_wheel s then 0 else 1) +
     (if loading_op_legacy s then 0 else 1)"

lemma target_cases [case_names sysconfig scripts build_ext wheel legacy other]:
  obtains "startswith n ''sysconfig''"
  | "\<not> startswith n ''sysconfig''" "n = ''pip._vendor.distlib.scripts''"
  | "\<not> startswith n ''sysconfig''" "n = ''distutils.command.build_ext''"
  | "\<not> startswith n ''sysconfig''" "n = ''pip._internal.operations.install.wheel''"
  | "\<not> startswith n ''sysconfig''" "n = ''pip._internal.operations.install.legacy''"
  | "\<not> startswith n ''sysconfig''" "n \<noteq> ''pip._vendor.distlib.scripts''"
    "n \<noteq> ''distutils.command.build_ext''" "n \<noteq> ''pip._internal.operations.install.wheel''"
    "n \<noteq> ''pip._internal.operations.install.legacy''"
  by blast

lemma find_module_unset_flags:
  "fst (find_module s n) \<Longrightarrow> unset_flags (snd (find_module s n)) < unset_flags s"
  by (cases n rule: target_cases)
     (simp_all add: find_module_def unset_flags_def split: if_split_asm)

function import_module :: "host \<Rightarrow> interp \<Rightarrow> string \<Rightarrow> (error + string) \<times> interp"
  and load_module :: "host \<Rightarrow> interp \<Rightarrow> string \<Rightarrow> (error + string) \<times> interp" where
  "import_module h s n =
     (case sys_modules s n of
        Some m \<Rightarrow> (Inr m, s)
      | None \<Rightarrow>
          (if fst (find_module s n) then load_module h (snd (find_module s n)) n
           else default_import h (snd (find_module s n)) n))"
| "load_module h s name =
     (if startswith name ''sysconfig'' then
        load_sysconfig h name (import_module h s ''sysconfig'')
      else if name = ''pip._vendor.distlib.scripts'' then
        load_scripts name (import_module h s name)
      else if name = ''distutils.command.build_ext'' then
        load_build_ext name (import_module h s name)
      else if name = ''pip._internal.operations.install.wheel'' then
        load_wheel name (import_module h s name)
      else if name = ''pip._internal.operations.install.legacy'' then
        load_legacy name (import_module h s name)
      else (Inl (UnboundLocalError ''mod''), s))"
  by pat_completeness auto
termination
  by (relation "measure (\<lambda>x. case x of
          Inl (h, s, n) \<Rightarrow> 2 * unset_flags s
        | Inr (h, s, n) \<Rightarrow> 2 * unset_flags s + 1)")
     (auto dest: find_module_unset_flags)

declare import_module.simps [simp del] load_module.simps [simp del]

text \<open>The module that \<^verbatim>\<open>load_module(name)\<close> imports: \<^verbatim>\<open>sysconfig\<close> in the first
  branch, \<open>name\<close> in the others.\<close>

definition imported_name :: "string \<Rightarrow> string" where
  "imported_name name = (if startswith name ''sysconfig'' then ''sysconfig'' else name)"

text \<open>One round of the import protocol on the importer: \<^verbatim>\<open>find_module\<close>, then
  \<^verbatim>\<open>load_module\<close>.\<close>

definition probe_and_materialize :: "host \<Rightarrow> interp \<Rightarrow> string \<Rightarrow> interp" where
  "probe_and_materialize h s name = snd (load_module h (snd (find_module s name)) name)"

text \<open>The states that the process can be in after state \<open>s\<close>: any number of calls of
  \<^verbatim>\<open>find_module\<close>, \<^verbatim>\<open>load_module\<close> and imports, whatever their outcome.\<close>

inductive later :: "host \<Rightarrow> interp \<Rightarrow> interp \<Rightarrow> bool" for h :: host and s :: interp where
  later_start: "later h s s"
| later_find: "later h s t \<Longrightarrow> later h s (snd (find_module t n))"
| later_load: "later h s t \<Longrightarrow> later h s (snd (load_module h t n))"
| later_import: "later h s t \<Longrightarrow> later h s (snd (import_module h t n))"

text \<open>The five targets, and the target that a module name belongs to: the tests of
  \<^verbatim>\<open>find_module\<close> and \<^verbatim>\<open>load_module\<close> on the name, in their order.\<close>

datatype target = Sysconfig | Scripts | BuildExt | Wheel | Legacy

definition target_of :: "string \<Rightarrow> target option" where
  "target_of module_name =
     (if startswith module_name ''sysconfig'' then Some Sysconfig
      else if module_name = ''pip._vendor.distlib.scripts'' then Some Scripts
      else if module_name = ''distutils.command.build_ext'' then Some BuildExt
      else if module_name = ''pip._internal.operations.install.wheel'' then Some Wheel
      else if module_name = ''pip._internal.operations.install.legacy'' then Some Legacy
      else None)"

text \<open>The flag of the importer that \<^verbatim>\<open>find_module\<close> tests and sets for a target.\<close>

fun flag :: "target \<Rightarrow> interp \<Rightarrow> bool" where
  "flag Sysconfig s = loading_sysconfig s"
| "flag Scripts s = loading_pip_scripts s"
| "flag BuildExt s = loading_distutils s"
| "flag Wheel s = loading_op_wheel s"
| "flag Legacy s = loading_op_legacy s"

text \<open>The states that the process can reach from state \<open>s\<close> while target \<open>t\<close> waits for its
  \<^verbatim>\<open>load_module\<close>: calls of \<^verbatim>\<open>find_module\<close> and imports of any name, and calls of
  \<^verbatim>\<open>load_module\<close> for names of the other targets, whatever their outcome.\<close>

inductive pending :: "host \<Rightarrow> target \<Rightarrow> interp \<Rightarrow> interp \<Rightarrow> bool"
  for h :: host and t :: target and s :: interp where
  pending_start: "pending h t s s"
| pending_find: "pending h t s u \<Longrightarrow> pending h t s (snd (find_module u n))"
| pending_import: "pending h t s u \<Longrightarrow> pending h t s (snd (import_module h u n))"
| pending_load: "pending h t s u \<Longrightarrow> target_of n \<noteq> Some t \<Longrightarrow>
                 pending h t s (snd (load_module h u n))"

text \<open>A sample host that provides the five target modules.\<close>

definition sample_host :: host where
  "sample_host = \<lparr>host_modules =
      [''sysconfig'' \<mapsto>
         [''get_config_var'' \<mapsto> Original ''sysconfig'' ''get_config_var'',
          ''get_paths'' \<mapsto> Original ''sysconfig'' ''get_paths'',
          ''get_default_scheme'' \<mapsto> Original ''sysconfig'' ''get_default_scheme''],
       ''pip._vendor.distlib.scripts'' \<mapsto>
         [''ScriptMaker'' \<mapsto> Original ''pip._vendor.distlib.scripts'' ''ScriptMaker'',
          ''ScriptMaker._build_shebang'' \<mapsto>
            Original ''pip._vendor.distlib.scripts'' ''ScriptMaker._build_shebang''],
       ''distutils.command.build_ext'' \<mapsto>
         [''build_ext'' \<mapsto> Original ''distutils.command.build_ext'' ''build_ext'',
          ''build_ext.finalize_options'' \<mapsto>
            Original ''distutils.command.build_ext'' ''build_ext.finalize_options''],
       ''pip._internal.operations.install.wheel'' \<mapsto>
         [''install_wheel'' \<mapsto>
            Original ''pip._internal.operations.install.wheel'' ''install_wheel''],
       ''pip._internal.operations.install.legacy'' \<mapsto>
         [''install'' \<mapsto> Original ''pip._internal.operations.install.legacy'' ''install'']],
     default_scheme = ''posix_prefix''\<rparr>"

section \<open>Bootstrap sequencer\<close>

text \<open>\<^verbatim>\<open>sub in s\<close> for two strings.\<close>

fun contains :: "string \<Rightarrow> string \<Rightarrow> bool" where
  "contains [] sub = (sub = [])"
| "contains (c # cs) sub = (startswith (c # cs) sub \<or> contains cs sub)"

text \<open>\<^verbatim>\<open>s.strip()\<close> removes leading and trailing whitespace, \<^verbatim>\<open>s.strip('"')\<close> leading
  and trailing double quotes. The whitespace characters are those of ASCII.\<close>

definition is_space :: "char \<Rightarrow> bool" where
  "is_space c = (c \<in> set [CHR 0x09, CHR 0x0A, CHR 0x0B, CHR 0x0C, CHR 0x0D,
                            CHR 0x1C, CHR 0x1D, CHR 0x1E, CHR 0x1F, CHR '' ''])"

definition strip_chars :: "(char \<Rightarrow> bool) \<Rightarrow> string \<Rightarrow> string" where
  "strip_chars P s = rev (dropWhile P (rev (dropWhile P s)))"

definition strip :: "string \<Rightarrow> string" where
  "strip s = strip_chars is_space s"

text \<open>The decimal digits of a number, as an f-string formats it.\<close>

definition digit_char :: "nat \<Rightarrow> char" where
  "digit_char d = ''0123456789'' ! d"

fun str_of_nat :: "nat \<Rightarrow> string" where
  "str_of_nat n = (if n < 10 then [digit_char n] else str_of_nat (n div 10) @ [digit_char (n mod 10)])"

declare str_of_nat.simps [simp del]

text \<open>\<^verbatim>\<open>debug(string)\<close>: the lines printed so far, with \<open>string\<close> added when
  \<^verbatim>\<open>RELENV_DEBUG\<close> is truthy.\<close>

definition debug :: "environ \<Rightarrow> string \<Rightarrow> string list \<Rightarrow> string list" where
  "debug env string out = (if environ_get_truthy env ''RELENV_DEBUG'' then out @ [string] else out)"

text \<open>
  What \<^verbatim>\<open>bootstrap()\<close> reads from its surroundings: the platform and the version of
  the interpreter, \<^verbatim>\<open>pathlib.Path(...).resolve()\<close>, the path that
  \<^verbatim>\<open>shutil.which("openssl")\<close> finds, the completed process that
  \<^verbatim>\<open>subprocess.run([openssl_bin, "version", "-d"], check=False)\<close> returns, and which
  paths exist. What it writes: \<^verbatim>\<open>os.environ\<close>, \<^verbatim>\<open>sys.prefix\<close>, \<^verbatim>\<open>sys.exec_prefix\<close>,
  \<^verbatim>\<open>sys.path\<close>, \<^verbatim>\<open>sys.meta_path\<close>, the lines it prints, and the commands it has run
  (\<open>spawned\<close>).
\<close>

datatype finder = RelenvImporter | HostFinder string

record completed_process =
  returncode :: int
  proc_stdout :: string
  proc_stderr :: string

record os =
  sys_platform :: string
  version_major :: nat
  version_minor :: nat
  resolve :: "string \<Rightarrow> path"
  which_openssl :: "string option"
  run_openssl :: completed_process
  path_exists :: "path \<Rightarrow> bool"

record process =
  environ :: environ
  sys_prefix :: string
  sys_exec_prefix :: string
  sys_path :: "string list"
  sys_meta_path :: "finder list"
  spawned :: "string list list"
  stdout :: "string list"

text \<open>The first block of \<^verbatim>\<open>bootstrap()\<close>: the cross-target root.\<close>

definition cross_target :: "os \<Rightarrow> process \<Rightarrow> process" where
  "cross_target w p =
     (let cross = (case environ p ''RELENV_CROSS'' of None \<Rightarrow> [] | Some v \<Rightarrow> v) in
      if cross \<noteq> [] then
        (let crossroot = resolve w cross;
             pyver = ''python'' @ str_of_nat (version_major w) @ ''.'' @ str_of_nat (version_minor w)
         in p\<lparr>sys_prefix := str_of_path crossroot,
               sys_exec_prefix := str_of_path crossroot,
               sys_path :=
                 [str_of_path (joinstr (joinstr crossroot ''lib'') pyver),
                  str_of_path (joinstr (joinstr (joinstr crossroot ''lib'') pyver) ''lib-dynload''),
                  str_of_path (joinstr (joinstr (joinstr crossroot ''lib'') pyver) ''site-packages'')]
                 @ filter (\<lambda>x. \<not> contains x ''site-packages'') (sys_path p)\<rparr>)
      else p)"

text \<open>The last lines of the second block: from the directory that openssl printed
  to the two trust-store variables.\<close>

definition set_cert_vars :: "os \<Rightarrow> process \<Rightarrow> string \<Rightarrow> process" where
  "set_cert_vars w p directory =
     (let path = path_of_str (strip_chars (\<lambda>c. c = CHR 0x22) (strip directory));
          p1 = (if \<not> environ_get_truthy (environ p) ''SSL_CERT_DIR''
                then p\<lparr>environ := (environ p)(''SSL_CERT_DIR'' \<mapsto> str_of_path (joinstr path ''certs''))\<rparr>
                else p);
          cert_file = joinstr path ''cert.pem''
      in if path_exists w cert_file \<and> \<not> environ_get_truthy (environ p1) ''SSL_CERT_FILE''
         then p1\<lparr>environ := (environ p1)(''SSL_CERT_FILE'' \<mapsto> str_of_path cert_file)\<rparr>
         else p1)"

text \<open>The second block of \<^verbatim>\<open>bootstrap()\<close>. The assignment
  \<^verbatim>\<open>_, directory = proc.stdout.split(":")\<close> raises \<^verbatim>\<open>ValueError\<close> unless the output
  splits into exactly two fields.\<close>

definition discover_certs :: "os \<Rightarrow> process \<Rightarrow> error option \<times> process" where
  "discover_certs w p =
     (if \<not> environ_contains (environ p) ''SSL_CERT_DIR'' \<and> sys_platform w \<noteq> ''win32'' then
        (case which_openssl w of
           None \<Rightarrow>
             (None, p\<lparr>stdout := debug (environ p)
                        ''Could not find the 'openssl' binary in the path'' (stdout p)\<rparr>)
         | Some openssl_bin \<Rightarrow>
             if openssl_bin = [] then
               (None, p\<lparr>stdout := debug (environ p)
                          ''Could not find the 'openssl' binary in the path'' (stdout p)\<rparr>)
             else
               (let proc = run_openssl w;
                    p1 = p\<lparr>spawned := spawned p @ [[openssl_bin, ''version'', ''-d'']]\<rparr>
                in if returncode proc \<noteq> 0 then
                     (let msg = ''Unable to get the certificates directory from openssl'';
                          msg' = (if proc_stderr proc \<noteq> [] then msg @ '': '' @ proc_stderr proc
                                  else msg)
                      in (None, p1\<lparr>stdout := debug (environ p1) msg' (stdout p1)\<rparr>))
                   else
                     (case split_on (CHR '':'') (proc_stdout proc) of
                        [u, directory] \<Rightarrow> (None, set_cert_vars w p1 directory)
                      | [u] \<Rightarrow>
                          (Some (ValueError ''not enough values to unpack (expected 2, got 1)''), p1)
                      | _ \<Rightarrow> (Some (ValueError ''too many values to unpack (expected 2)''), p1))))
      else (None, p))"

text \<open>\<^verbatim>\<open>bootstrap()\<close>: the two blocks, then the importer goes first on
  \<^verbatim>\<open>sys.meta_path\<close>. The result carries the state also when an exception leaves the
  function.\<close>

definition bootstrap :: "os \<Rightarrow> process \<Rightarrow> error option \<times> process" where
  "bootstrap w p =
     (case discover_certs w (cross_target w p) of
        (Some e, p1) \<Rightarrow> (Some e, p1)
      | (None, p1) \<Rightarrow> (None, p1\<lparr>sys_meta_path := RelenvImporter # sys_meta_path p1\<rparr>))"

text \<open>A sample platform on which openssl is found and prints \<open>out\<close>, and a sample
  process with the environment \<open>env\<close>.\<close>

definition openssl_os :: "string \<Rightarrow> os" where
  "openssl_os out =
     \<lparr>sys_platform = ''linux'', version_major = 3, version_minor = 10, resolve = path_of_str,
      which_openssl = Some ''/usr/bin/openssl'',
      run_openssl = \<lparr>returncode = 0, proc_stdout = out, proc_stderr = []\<rparr>,
      path_exists = (\<lambda>p. True)\<rparr>"

definition sample_process :: "environ \<Rightarrow> process" where
  "sample_process env =
     \<lparr>environ = env, sys_prefix = ''/opt/relenv'', sys_exec_prefix = ''/opt/relenv'',
      sys_path = [''/opt/relenv/lib/python3.10'', ''/opt/relenv/lib/python3.10/site-packages''],
      sys_meta_path = [HostFinder ''PathFinder''], spawned = [], stdout = []\<rparr>"

section \<open>Properties of the root resolver\<close>

lemma parts_parent: "parts (parent p) = butlast (parts p)"
  by (simp add: parent_def)




section \<open>Properties of the shebang builder\<close>

text \<open>
  Claim C4, as stated, reads "mode on" as \<^verbatim>\<open>RELENV_PIP_DIR\<close> being set. The builder
  tests \<^verbatim>\<open>os.environ.get("RELENV_PIP_DIR")\<close>, which is false for a variable set to the
  empty string: there, on a platform other than win32, the builder returns the
  relative form of \<^verbatim>\<open>/python3\<close> and not that of \<^verbatim>\<open>/bin/python3\<close>.
\<close>

theorem build_shebang_set_empty_counterexample:
  "environ_contains [''RELENV_PIP_DIR'' \<mapsto> ''''] ''RELENV_PIP_DIR'' \<and>
   build_shebang ''linux'' [''RELENV_PIP_DIR'' \<mapsto> ''''] sample_format_shebang () =
     encode (sample_format_shebang ''/python3'') \<and>
   build_shebang ''linux'' [''RELENV_PIP_DIR'' \<mapsto> ''''] sample_format_shebang () \<noteq>
     encode (sample_format_shebang ''/bin/python3'')"
  by (simp add: build_shebang_def environ_get_truthy_def environ_contains_def
      sample_format_shebang_def encode_def)

text \<open>
  Claim C4, amended. With "mode on" meaning that \<^verbatim>\<open>RELENV_PIP_DIR\<close> is set to a
  non-empty value (unset or empty is "mode off"), the builder returns, for any
  arguments: on win32 the literal \<^verbatim>\<open>#!<launcher_dir>\Scripts\python.exe\<close> with the mode
  on and \<^verbatim>\<open>#!<launcher_dir>\python.exe\<close> with the mode off; on any other platform the
  formatter's output for \<^verbatim>\<open>/bin/python3\<close> with the mode on and for \<^verbatim>\<open>/python3\<close>
  with the mode off.
\<close>

theorem build_shebang_outputs:
  "(platform = ''win32'' \<and> env ''RELENV_PIP_DIR'' = Some v \<and> v \<noteq> [] \<longrightarrow>
      build_shebang platform env format_shebang args =
        ''#!<launcher_dir>'' @ [CHR 0x5C] @ ''Scripts'' @ [CHR 0x5C] @ ''python.exe'') \<and>
   (platform = ''win32'' \<and> (env ''RELENV_PIP_DIR'' = None \<or> env ''RELENV_PIP_DIR'' = Some []) \<longrightarrow>
      build_shebang platform env format_shebang args =
        ''#!<launcher_dir>'' @ [CHR 0x5C] @ ''python.exe'') \<and>
   (platform \<noteq> ''win32'' \<and> env ''RELENV_PIP_DIR'' = Some v \<and> v \<noteq> [] \<longrightarrow>
      build_shebang platform env format_shebang args = format_shebang ''/bin/python3'') \<and>
   (platform \<noteq> ''win32'' \<and> (env ''RELENV_PIP_DIR'' = None \<or> env ''RELENV_PIP_DIR'' = Some []) \<longrightarrow>
      build_shebang platform env format_shebang args = format_shebang ''/python3'')"
  by (auto simp: build_shebang_def environ_get_truthy_def encode_def
      shebang_windows_pip_dir_def shebang_windows_def split: option.splits)

theorem build_shebang_outputs_witness:
  "build_shebang ''win32'' [''RELENV_PIP_DIR'' \<mapsto> ''1''] sample_format_shebang () =
     ''#!<launcher_dir>'' @ [CHR 0x5C] @ ''Scripts'' @ [CHR 0x5C] @ ''python.exe'' \<and>
   build_shebang ''win32'' Map.empty sample_format_shebang () =
     ''#!<launcher_dir>'' @ [CHR 0x5C] @ ''python.exe'' \<and>
   build_shebang ''linux'' [''RELENV_PIP_DIR'' \<mapsto> ''1''] sample_format_shebang () =
     sample_format_shebang ''/bin/python3'' \<and>
   build_shebang ''linux'' Map.empty sample_format_shebang () =
     sample_format_shebang ''/python3''"
  using build_shebang_outputs [where platform = "''win32''" and v = "''1''" and args = "()"
      and env = "[''RELENV_PIP_DIR'' \<mapsto> ''1'']" and format_shebang = sample_format_shebang]
    build_shebang_outputs [where platform = "''win32''" and v = "''1''" and args = "()"
      and env = Map.empty and format_shebang = sample_format_shebang]
    build_shebang_outputs [where platform = "''linux''" and v = "''1''" and args = "()"
      and env = "[''RELENV_PIP_DIR'' \<mapsto> ''1'']" and format_shebang = sample_format_shebang]
    build_shebang_outputs [where platform = "''linux''" and v = "''1''" and args = "()"
      and env = Map.empty and format_shebang = sample_format_shebang]
  by simp

section \<open>Properties of the configuration-variable wrapper\<close>

lemma joinstr_Scripts: "joinstr p ''Scripts'' = Path (anchor p) (parts p @ [''Scripts''])"
  by (simp add: joinstr_def joinpath_def path_of_str_def posix_root_def)

lemma joinstr_Scripts_neq: "joinstr p ''Scripts'' \<noteq> p"
  by (cases p) (simp add: joinstr_Scripts)

text \<open>
  Claim C5, as stated, has the wrapped accessor return the bare root for
  \<^verbatim>\<open>BINDIR\<close> on a platform other than win32 when \<^verbatim>\<open>RELENV_PIP_DIR\<close> is unset. The
  wrapper does not look at the platform: it returns the root joined with
  \<^verbatim>\<open>Scripts\<close> there too.
\<close>

theorem get_config_var_bindir_linux_counterexample:
  "get_config_var_wrapper ''linux'' Map.empty sample_module_dir sample_config_var ''BINDIR'' =
     Relocated (Path ''/'' [''opt'', ''relenv'', ''Scripts'']) \<and>
   get_config_var_wrapper ''linux'' Map.empty sample_module_dir sample_config_var ''BINDIR'' \<noteq>
     Relocated (relenv_root ''linux'' sample_module_dir)"
  by (simp add: get_config_var_wrapper_def environ_get_truthy_def joinstr_Scripts
      relenv_root_def parent_def sample_module_dir_def)

text \<open>
  Claim C5, amended. With \<^verbatim>\<open>RELENV_PIP_DIR\<close> unset, the wrapped accessor returns for
  \<^verbatim>\<open>BINDIR\<close> the root extended by the component \<^verbatim>\<open>Scripts\<close>, on the windows-style
  layout and on every other one alike; the platform only decides which directory the
  root is. The result is never the bare root.
\<close>

theorem get_config_var_bindir_unset:
  assumes "env ''RELENV_PIP_DIR'' = None"
  shows "get_config_var_wrapper platform env MODULE_DIR func ''BINDIR'' =
           Relocated (Path (anchor (relenv_root platform MODULE_DIR))
                           (parts (relenv_root platform MODULE_DIR) @ [''Scripts''])) \<and>
         get_config_var_wrapper platform env MODULE_DIR func ''BINDIR'' \<noteq>
           Relocated (relenv_root platform MODULE_DIR)"
  using assms
  by (simp add: get_config_var_wrapper_def environ_get_truthy_def joinstr_Scripts_neq
      joinstr_Scripts [symmetric])

theorem get_config_var_bindir_unset_witness:
  "get_config_var_wrapper ''linux'' Map.empty sample_module_dir sample_config_var ''BINDIR'' =
     Relocated (Path ''/'' [''opt'', ''relenv'', ''Scripts'']) \<and>
   get_config_var_wrapper ''win32'' Map.empty sample_module_dir sample_config_var ''BINDIR'' =
     Relocated (Path ''/'' [''opt'', ''relenv'', ''lib'', ''Scripts''])"
  using get_config_var_bindir_unset [where env = Map.empty and platform = "''linux''"
      and MODULE_DIR = sample_module_dir and func = sample_config_var]
    get_config_var_bindir_unset [where env = Map.empty and platform = "''win32''"
      and MODULE_DIR = sample_module_dir and func = sample_config_var]
  by (simp add: relenv_root_def parent_def sample_module_dir_def)

text \<open>
  Claim C6, as stated, reads "mode on" as \<^verbatim>\<open>RELENV_PIP_DIR\<close> being set. The wrapper
  tests \<^verbatim>\<open>os.environ.get("RELENV_PIP_DIR")\<close>: with the variable set to the empty
  string it returns the root joined with \<^verbatim>\<open>Scripts\<close>, not the bare root.
\<close>

theorem get_config_var_set_empty_counterexample:
  "environ_contains [''RELENV_PIP_DIR'' \<mapsto> ''''] ''RELENV_PIP_DIR'' \<and>
   get_config_var_wrapper ''win32'' [''RELENV_PIP_DIR'' \<mapsto> ''''] sample_module_dir
       sample_config_var ''BINDIR'' =
     Relocated (Path ''/'' [''opt'', ''relenv'', ''lib'', ''Scripts'']) \<and>
   get_config_var_wrapper ''win32'' [''RELENV_PIP_DIR'' \<mapsto> ''''] sample_module_dir
       sample_config_var ''BINDIR'' \<noteq>
     Relocated (relenv_root ''win32'' sample_module_dir)"
  by (simp add: get_config_var_wrapper_def environ_get_truthy_def environ_contains_def
      joinstr_Scripts relenv_root_def parent_def sample_module_dir_def)

text \<open>
  Claim C6, amended. For \<^verbatim>\<open>BINDIR\<close> the wrapped accessor returns the root joined
  with \<^verbatim>\<open>Scripts\<close> when \<^verbatim>\<open>RELENV_PIP_DIR\<close> is unset or empty, and the bare root when
  it is set to a non-empty value; for every other name it returns what the original
  accessor returns for that name.
\<close>

theorem get_config_var_wrapper_cases:
  "(env ''RELENV_PIP_DIR'' = None \<or> env ''RELENV_PIP_DIR'' = Some [] \<longrightarrow>
      get_config_var_wrapper platform env MODULE_DIR func ''BINDIR'' =
        Relocated (joinstr (relenv_root platform MODULE_DIR) ''Scripts'')) \<and>
   (env ''RELENV_PIP_DIR'' = Some v \<and> v \<noteq> [] \<longrightarrow>
      get_config_var_wrapper platform env MODULE_DIR func ''BINDIR'' =
        Relocated (relenv_root platform MODULE_DIR)) \<and>
   (name \<noteq> ''BINDIR'' \<longrightarrow>
      get_config_var_wrapper platform env MODULE_DIR func name = Passed (func name))"
  by (auto simp: get_config_var_wrapper_def environ_get_truthy_def split: option.splits)

theorem get_config_var_wrapper_cases_witness:
  "get_config_var_wrapper ''win32'' Map.empty sample_module_dir sample_config_var ''BINDIR'' =
     Relocated (Path ''/'' [''opt'', ''relenv'', ''lib'', ''Scripts'']) \<and>
   get_config_var_wrapper ''win32'' [''RELENV_PIP_DIR'' \<mapsto> ''1''] sample_module_dir
       sample_config_var ''BINDIR'' =
     Relocated (Path ''/'' [''opt'', ''relenv'', ''lib'']) \<and>
   get_config_var_wrapper ''win32'' Map.empty sample_module_dir sample_config_var ''LIBDIR'' =
     Passed ''/build/LIBDIR''"
  using get_config_var_wrapper_cases [where env = Map.empty and v = "''1''"
      and platform = "''win32''" and MODULE_DIR = sample_module_dir
      and func = sample_config_var and name = "''LIBDIR''"]
    get_config_var_wrapper_cases [where env = "[''RELENV_PIP_DIR'' \<mapsto> ''1'']"
      and v = "''1''" and platform = "''win32''" and MODULE_DIR = sample_module_dir
      and func = sample_config_var and name = "''LIBDIR''"]
  by (simp add: joinstr_Scripts relenv_root_def parent_def sample_module_dir_def
      sample_config_var_def)

section \<open>Properties of the import interceptor\<close>

lemma store_module_sys_modules:
  "store_module s n md = (Inr md', s') \<Longrightarrow> sys_modules s' n = Some md'"
  by (auto simp: store_module_def)

lemma load_module_sys_modules:
  "load_module h s n = (Inr md, s') \<Longrightarrow> sys_modules s' n = Some md"
  unfolding load_module.simps [of h s n]
  by (auto simp: load_sysconfig_def load_scripts_def load_build_ext_def load_wheel_def
      load_legacy_def store_module_def split: if_split_asm prod.splits sum.splits option.splits)

lemma import_module_sys_modules:
  "import_module h s n = (Inr md, s') \<Longrightarrow> sys_modules s' n = Some md"
  unfolding import_module.simps [of h s n]
  by (auto simp: default_import_def load_module_sys_modules split: option.splits if_split_asm)

lemma import_module_cached:
  "sys_modules s n = Some md \<Longrightarrow> import_module h s n = (Inr md, s)"
  by (simp add: import_module.simps)

lemma find_module_keeps_distutils:
  "loading_distutils s \<Longrightarrow> loading_distutils (snd (find_module s n))"
  by (simp add: find_module_def)

lemma setattr_flags [simp]:
  "loading_distutils (setattr s md a v) = loading_distutils s"
  "loading_sysconfig (setattr s md a v) = loading_sysconfig s"
  "loading_pip_scripts (setattr s md a v) = loading_pip_scripts s"
  "loading_op_wheel (setattr s md a v) = loading_op_wheel s"
  "loading_op_legacy (setattr s md a v) = loading_op_legacy s"
  "sys_modules (setattr s md a v) = sys_modules s"
  by (simp_all add: setattr_def)

lemma patch_keeps_distutils:
  "patch_sysconfig h s md = (e, s') \<Longrightarrow> loading_distutils s' = loading_distutils s"
  "patch_scripts s md = (e, s') \<Longrightarrow> loading_distutils s' = loading_distutils s"
  "patch_build_ext s md = (e, s') \<Longrightarrow> loading_distutils s' = loading_distutils s"
  "patch_wheel s md = (e, s') \<Longrightarrow> loading_distutils s' = loading_distutils s"
  "patch_legacy s md = (e, s') \<Longrightarrow> loading_distutils s' = loading_distutils s"
  by (auto simp: patch_sysconfig_def patch_scripts_def patch_build_ext_def patch_wheel_def
      patch_legacy_def Let_def split: option.splits sum.splits)

lemma load_sysconfig_keeps_distutils:
  "loading_distutils (snd r) \<Longrightarrow> loading_distutils (snd (load_sysconfig h n r))"
  by (auto simp: load_sysconfig_def store_module_def dest: patch_keeps_distutils(1)
      split: prod.splits sum.splits option.splits)

lemma load_scripts_keeps_distutils:
  "loading_distutils (snd r) \<Longrightarrow> loading_distutils (snd (load_scripts n r))"
  by (auto simp: load_scripts_def store_module_def dest: patch_keeps_distutils(2)
      split: prod.splits sum.splits option.splits)

lemma load_build_ext_keeps_distutils:
  "loading_distutils (snd r) \<Longrightarrow> loading_distutils (snd (load_build_ext n r))"
  by (auto simp: load_build_ext_def store_module_def dest: patch_keeps_distutils(3)
      split: prod.splits sum.splits option.splits)

lemma load_wheel_keeps_distutils:
  "loading_distutils (snd r) \<Longrightarrow> loading_distutils (snd (load_wheel n r))"
  by (auto simp: load_wheel_def store_module_def dest: patch_keeps_distutils(4)
      split: prod.splits sum.splits option.splits)

lemma load_legacy_keeps_distutils:
  "loading_distutils (snd r) \<Longrightarrow> loading_distutils (snd (load_legacy n r))"
  by (auto simp: load_legacy_def store_module_def dest: patch_keeps_distutils(5)
      split: prod.splits sum.splits option.splits)

lemma import_load_keep_distutils:
  shows "loading_distutils s \<Longrightarrow> loading_distutils (snd (import_module h s n))"
    and "loading_distutils s \<Longrightarrow> loading_distutils (snd (load_module h s n))"
proof (induction h s n and h s n rule: import_module_load_module.induct)
  case (1 h s n)
  show ?case
  proof (cases "sys_modules s n")
    case (Some m)
    with 1 show ?thesis by (simp add: import_module.simps)
  next
    case None
    have fl: "loading_distutils (snd (find_module s n))"
      using "1.prems" by (rule find_module_keeps_distutils)
    show ?thesis
    proof (cases "fst (find_module s n)")
      case True
      with None "1.IH" fl show ?thesis by (simp add: import_module.simps)
    next
      case False
      with None fl show ?thesis
        by (simp add: import_module.simps default_import_def split: option.splits)
    qed
  qed
next
  case (2 h s name)
  show ?case
    unfolding load_module.simps [of h s name]
    using 2 load_sysconfig_keeps_distutils load_scripts_keeps_distutils
      load_build_ext_keeps_distutils load_wheel_keeps_distutils load_legacy_keeps_distutils
    by simp
qed

lemma later_keeps_distutils:
  "later h s t \<Longrightarrow> loading_distutils s \<Longrightarrow> loading_distutils t"
  by (induction rule: later.induct)
     (simp_all add: find_module_keeps_distutils import_load_keep_distutils)

lemma find_module_distutils_set:
  "loading_distutils t \<Longrightarrow> find_module t ''distutils.command.build_ext'' = (False, t)"
  by (simp add: find_module_def)

lemma find_module_declined_state:
  "\<not> fst (find_module s n) \<Longrightarrow> snd (find_module s n) = s"
  by (cases n rule: target_cases) (simp_all add: find_module_def split: if_split_asm)

lemma import_module_declined:
  "\<not> fst (find_module s n) \<Longrightarrow>
   import_module h s n =
     (case sys_modules s n of
        Some m \<Rightarrow> (Inr m, s)
      | None \<Rightarrow> default_import h s n)"
  by (simp add: import_module.simps find_module_declined_state split: option.splits)

lemma load_module_wheel_result:
  assumes "load_module h s ''pip._internal.operations.install.wheel'' = (Inr md, s1)"
  shows "\<not> loading_op_wheel s1 \<and>
         sys_modules s1 ''pip._internal.operations.install.wheel'' = Some md \<and>
         (\<exists>f. heap s1 md ''install_wheel'' = Some (InstallWheelWrapper f))"
proof -
  obtain r sa where imp: "import_module h s ''pip._internal.operations.install.wheel'' = (r, sa)"
    by (cases "import_module h s ''pip._internal.operations.install.wheel''")
  from assms imp show ?thesis
    by (auto simp: load_module.simps [of h s] load_wheel_def patch_wheel_def store_module_def
        getattr_def setattr_def split: sum.splits option.splits)
qed

lemma load_module_wheel_again:
  assumes "\<not> loading_op_wheel s1"
    and "sys_modules s1 ''pip._internal.operations.install.wheel'' = Some md"
    and "heap s1 md ''install_wheel'' = Some v"
  shows "fst (find_module s1 ''pip._internal.operations.install.wheel'') \<and>
         fst (load_module h (snd (find_module s1 ''pip._internal.operations.install.wheel''))
                ''pip._internal.operations.install.wheel'') = Inr md \<and>
         heap (snd (load_module h (snd (find_module s1 ''pip._internal.operations.install.wheel''))
                ''pip._internal.operations.install.wheel'')) md ''install_wheel'' =
           Some (InstallWheelWrapper v)"
  using assms
  by (simp add: find_module_def load_module.simps import_module_cached load_wheel_def
      patch_wheel_def store_module_def getattr_def setattr_def)

lemma load_module_legacy_result:
  assumes "load_module h s ''pip._internal.operations.install.legacy'' = (Inr md, s1)"
  shows "\<not> loading_op_legacy s1 \<and>
         sys_modules s1 ''pip._internal.operations.install.legacy'' = Some md \<and>
         (\<exists>f. heap s1 md ''install'' = Some (InstallLegacyWrapper f))"
proof -
  obtain r sa where imp: "import_module h s ''pip._internal.operations.install.legacy'' = (r, sa)"
    by (cases "import_module h s ''pip._internal.operations.install.legacy''")
  from assms imp show ?thesis
    by (auto simp: load_module.simps [of h s] load_legacy_def patch_legacy_def store_module_def
        getattr_def setattr_def split: sum.splits option.splits)
qed

lemma load_module_legacy_again:
  assumes "\<not> loading_op_legacy s1"
    and "sys_modules s1 ''pip._internal.operations.install.legacy'' = Some md"
    and "heap s1 md ''install'' = Some v"
  shows "fst (find_module s1 ''pip._internal.operations.install.legacy'') \<and>
         fst (load_module h (snd (find_module s1 ''pip._internal.operations.install.legacy''))
                ''pip._internal.operations.install.legacy'') = Inr md \<and>
         heap (snd (load_module h (snd (find_module s1 ''pip._internal.operations.install.legacy''))
                ''pip._internal.operations.install.legacy'')) md ''install'' =
           Some (InstallLegacyWrapper v)"
  using assms
  by (simp add: find_module_def load_module.simps import_module_cached load_legacy_def
      patch_legacy_def store_module_def getattr_def setattr_def)

lemma load_module_scripts_result:
  assumes "load_module h s ''pip._vendor.distlib.scripts'' = (Inr md, s1)"
  shows "\<not> loading_pip_scripts s1 \<and>
         sys_modules s1 ''pip._vendor.distlib.scripts'' = Some md \<and>
         heap s1 md ''ScriptMaker._build_shebang'' = Some BuildShebang \<and>
         (\<exists>c. heap s1 md ''ScriptMaker'' = Some c)"
proof -
  obtain r sa where imp: "import_module h s ''pip._vendor.distlib.scripts'' = (r, sa)"
    by (cases "import_module h s ''pip._vendor.distlib.scripts''")
  from assms imp show ?thesis
    by (auto simp: load_module.simps [of h s] load_scripts_def patch_scripts_def store_module_def
        getattr_def setattr_def split: sum.splits option.splits)
qed

lemma load_module_scripts_again:
  assumes "\<not> loading_pip_scripts s1"
    and "sys_modules s1 ''pip._vendor.distlib.scripts'' = Some md"
    and "heap s1 md ''ScriptMaker'' = Some c"
  shows "fst (find_module s1 ''pip._vendor.distlib.scripts'') \<and>
         fst (load_module h (snd (find_module s1 ''pip._vendor.distlib.scripts''))
                ''pip._vendor.distlib.scripts'') = Inr md \<and>
         heap (snd (load_module h (snd (find_module s1 ''pip._vendor.distlib.scripts''))
                ''pip._vendor.distlib.scripts'')) md ''ScriptMaker._build_shebang'' =
           Some BuildShebang"
  using assms
  by (simp add: find_module_def load_module.simps import_module_cached load_scripts_def
      patch_scripts_def store_module_def getattr_def setattr_def)

lemma heap_setattr:
  "heap (setattr s md a v) md' a' = (if md' = md \<and> a' = a then Some v else heap s md' a')"
  by (simp add: setattr_def)

lemma get_scheme_heap:
  "heap s' = heap s \<Longrightarrow> get_scheme h s' md = get_scheme h s md"
  by (simp add: get_scheme_def getattr_def)

lemma get_scheme_setattr:
  "a \<noteq> ''get_default_scheme'' \<Longrightarrow> a \<noteq> ''_get_default_scheme'' \<Longrightarrow>
   get_scheme h (setattr s md a v) md' = get_scheme h s md'"
  by (simp add: get_scheme_def getattr_def heap_setattr)

lemma get_scheme_Inr:
  "get_scheme h s md = Inr x \<Longrightarrow> x = default_scheme h"
  by (simp add: get_scheme_def split: if_split_asm)

lemma patch_sysconfig_result:
  assumes "patch_sysconfig h sa md = (None, sb)"
  shows "sys_modules sb = sys_modules sa \<and>
         (\<exists>f. heap sb md ''get_config_var'' = Some (GetConfigVarWrapper f)) \<and>
         (\<exists>g. heap sb md ''get_paths'' = Some (GetPathsWrapper g (default_scheme h))) \<and>
         get_scheme h sb md = Inr (default_scheme h)"
proof -
  from assms obtain f where f: "getattr sa md ''get_config_var'' = Some f"
    by (auto simp: patch_sysconfig_def split: option.splits)
  define sm where "sm = setattr (setattr sa md ''get_config_var'' (GetConfigVarWrapper f))
      md ''_PIP_USE_SYSCONFIG'' PyTrue"
  from assms f obtain sch where sch: "get_scheme h sm md = Inr sch"
    by (auto simp: patch_sysconfig_def Let_def sm_def split: sum.splits)
  then have sch': "sch = default_scheme h" by (rule get_scheme_Inr)
  from assms f sch obtain g where g: "getattr sm md ''get_paths'' = Some g"
    and sb: "sb = setattr sm md ''get_paths'' (GetPathsWrapper g sch)"
    by (auto simp: patch_sysconfig_def Let_def sm_def split: option.splits)
  show ?thesis
    using sch sch' by (simp add: sb sm_def heap_setattr get_scheme_setattr)
qed

lemma load_module_sysconfig_result:
  assumes "startswith n ''sysconfig''"
    and "load_module h s n = (Inr md, s1)"
  shows "\<not> loading_sysconfig s1 \<and> sys_modules s1 ''sysconfig'' = Some md \<and>
         (\<exists>f. heap s1 md ''get_config_var'' = Some (GetConfigVarWrapper f)) \<and>
         (\<exists>g. heap s1 md ''get_paths'' = Some (GetPathsWrapper g (default_scheme h))) \<and>
         get_scheme h s1 md = Inr (default_scheme h)"
proof -
  obtain r sa where imp: "import_module h s ''sysconfig'' = (r, sa)"
    by (cases "import_module h s ''sysconfig''")
  from assms imp obtain sb where r: "r = Inr md"
    and p: "patch_sysconfig h sa md = (None, sb)"
    and s1: "s1 = sb\<lparr>loading_sysconfig := False, sys_modules := (sys_modules sb)(n \<mapsto> md)\<rparr>"
    by (auto simp: load_module.simps [of h s] load_sysconfig_def store_module_def
        split: sum.splits option.splits prod.splits)
  have sm: "sys_modules sa ''sysconfig'' = Some md"
    using imp r by (simp add: import_module_sys_modules)
  have hp: "heap s1 = heap sb" by (simp add: s1)
  from patch_sysconfig_result [OF p] sm show ?thesis
    by (simp add: get_scheme_heap [OF hp] hp) (simp add: s1)
qed

lemma load_module_sysconfig_again:
  assumes "startswith n ''sysconfig''"
    and "\<not> loading_sysconfig s1"
    and "sys_modules s1 ''sysconfig'' = Some md"
    and "heap s1 md ''get_config_var'' = Some v"
    and "heap s1 md ''get_paths'' = Some w"
    and "get_scheme h s1 md = Inr (default_scheme h)"
  shows "fst (find_module s1 n) \<and>
         fst (load_module h (snd (find_module s1 n)) n) = Inr md \<and>
         heap (snd (load_module h (snd (find_module s1 n)) n)) md ''get_config_var'' =
           Some (GetConfigVarWrapper v) \<and>
         heap (snd (load_module h (snd (find_module s1 n)) n)) md ''get_paths'' =
           Some (GetPathsWrapper w (default_scheme h))"
proof -
  define s2 where "s2 = s1\<lparr>loading_sysconfig := True\<rparr>"
  have f: "find_module s1 n = (True, s2)"
    using assms(1,2) by (simp add: find_module_def s2_def)
  have i: "import_module h s2 ''sysconfig'' = (Inr md, s2)"
    using assms(3) by (simp add: import_module_cached s2_def)
  have h2: "heap s2 = heap s1" by (simp add: s2_def)
  have g: "get_scheme h s2 md = Inr (default_scheme h)"
    using assms(6) by (simp add: get_scheme_heap [OF h2])
  have p: "patch_sysconfig h s2 md =
      (None, setattr (setattr (setattr s2 md ''get_config_var'' (GetConfigVarWrapper v))
          md ''_PIP_USE_SYSCONFIG'' PyTrue) md ''get_paths'' (GetPathsWrapper w (default_scheme h)))"
    using assms(4,5) g
    by (simp add: patch_sysconfig_def Let_def getattr_def h2 get_scheme_setattr heap_setattr)
  show ?thesis
    using assms(1)
    by (simp add: f load_module.simps [of h s2] i load_sysconfig_def p store_module_def
        heap_setattr)
qed

lemmas sample_run_defs = probe_and_materialize_def initial_def sample_host_def
  import_module.simps load_module.simps find_module_def default_import_def
  load_sysconfig_def load_scripts_def load_build_ext_def load_wheel_def load_legacy_def
  patch_sysconfig_def patch_scripts_def patch_build_ext_def patch_wheel_def patch_legacy_def
  get_scheme_def getattr_def setattr_def store_module_def

text \<open>
  Claim C1, as stated, concludes that a target's patch function is applied at most
  once per process. The flags do not give that: \<^verbatim>\<open>load_module\<close> sets the flag of the
  binary-package installer back to \<open>False\<close>, so a second round of \<^verbatim>\<open>find_module\<close>
  and \<^verbatim>\<open>load_module\<close> for the same name matches again and wraps \<^verbatim>\<open>install_wheel\<close>
  a second time; and two imports whose names both start with \<^verbatim>\<open>sysconfig\<close> wrap
  \<^verbatim>\<open>get_config_var\<close> of the configuration module twice.
\<close>

theorem patched_twice_counterexample:
  "fst (find_module initial ''pip._internal.operations.install.wheel'') \<and>
   heap (probe_and_materialize sample_host initial ''pip._internal.operations.install.wheel'')
       ''pip._internal.operations.install.wheel'' ''install_wheel'' =
     Some (InstallWheelWrapper
            (Original ''pip._internal.operations.install.wheel'' ''install_wheel'')) \<and>
   fst (find_module
          (probe_and_materialize sample_host initial ''pip._internal.operations.install.wheel'')
          ''pip._internal.operations.install.wheel'') \<and>
   heap (probe_and_materialize sample_host
          (probe_and_materialize sample_host initial ''pip._internal.operations.install.wheel'')
          ''pip._internal.operations.install.wheel'')
       ''pip._internal.operations.install.wheel'' ''install_wheel'' =
     Some (InstallWheelWrapper (InstallWheelWrapper
            (Original ''pip._internal.operations.install.wheel'' ''install_wheel''))) \<and>
   heap (snd (import_module sample_host (snd (import_module sample_host initial ''sysconfig''))
          ''sysconfig_extra''))
       ''sysconfig'' ''get_config_var'' =
     Some (GetConfigVarWrapper (GetConfigVarWrapper (Original ''sysconfig'' ''get_config_var'')))"
  by (simp add: sample_run_defs)


lemma find_module_match:
  "fst (find_module s n) = (\<exists>t. target_of n = Some t \<and> \<not> flag t s)"
  by (cases n rule: target_cases) (simp_all add: find_module_def target_of_def)

lemma find_module_sets_flag:
  "fst (find_module s n) \<Longrightarrow> target_of n = Some t \<Longrightarrow> flag t (snd (find_module s n))"
  by (cases n rule: target_cases) (auto simp: find_module_def target_of_def split: if_split_asm)

lemma find_module_keeps_flag:
  "flag t s \<Longrightarrow> flag t (snd (find_module s n))"
  by (cases n rule: target_cases; cases t) (simp_all add: find_module_def)

lemma find_module_flag_set:
  "target_of n = Some t \<Longrightarrow> flag t s \<Longrightarrow> find_module s n = (False, s)"
  by (cases n rule: target_cases) (auto simp: find_module_def target_of_def)

lemma setattr_flag [simp]: "flag t (setattr s md a v) = flag t s"
  by (cases t) simp_all

lemma patch_keeps_flag:
  "patch_sysconfig h s md = (e, s') \<Longrightarrow> flag t s' = flag t s"
  "patch_scripts s md = (e, s') \<Longrightarrow> flag t s' = flag t s"
  "patch_build_ext s md = (e, s') \<Longrightarrow> flag t s' = flag t s"
  "patch_wheel s md = (e, s') \<Longrightarrow> flag t s' = flag t s"
  "patch_legacy s md = (e, s') \<Longrightarrow> flag t s' = flag t s"
  by (auto simp: patch_sysconfig_def patch_scripts_def patch_build_ext_def patch_wheel_def
      patch_legacy_def Let_def split: option.splits sum.splits)

lemma flag_sys_modules [simp]: "flag t (s\<lparr>sys_modules := m\<rparr>) = flag t s"
  by (cases t) simp_all

lemma flag_heap [simp]: "flag t (s\<lparr>heap := m\<rparr>) = flag t s"
  by (cases t) simp_all

lemma flag_loading_sysconfig [simp]:
  "t \<noteq> Sysconfig \<Longrightarrow> flag t (s\<lparr>loading_sysconfig := b\<rparr>) = flag t s"
  by (cases t) simp_all

lemma flag_loading_pip_scripts [simp]:
  "t \<noteq> Scripts \<Longrightarrow> flag t (s\<lparr>loading_pip_scripts := b\<rparr>) = flag t s"
  by (cases t) simp_all

lemma flag_loading_op_wheel [simp]:
  "t \<noteq> Wheel \<Longrightarrow> flag t (s\<lparr>loading_op_wheel := b\<rparr>) = flag t s"
  by (cases t) simp_all

lemma flag_loading_op_legacy [simp]:
  "t \<noteq> Legacy \<Longrightarrow> flag t (s\<lparr>loading_op_legacy := b\<rparr>) = flag t s"
  by (cases t) simp_all

lemma load_sysconfig_keeps_flag:
  assumes "flag t (snd r)" and "t \<noteq> Sysconfig"
  shows "flag t (snd (load_sysconfig h n r))"
proof (cases r)
  case (Pair x s1)
  show ?thesis
  proof (cases x)
    case (Inl e)
    with Pair assms show ?thesis by (simp add: load_sysconfig_def)
  next
    case (Inr md)
    obtain e s2 where p: "patch_sysconfig h s1 md = (e, s2)"
      by (cases "patch_sysconfig h s1 md")
    from patch_keeps_flag(1) [OF p, of t] assms Pair have "flag t s2" by simp
    with Pair Inr p assms(2) show ?thesis
      by (cases e) (simp_all add: load_sysconfig_def store_module_def)
  qed
qed

lemma load_scripts_keeps_flag:
  assumes "flag t (snd r)" and "t \<noteq> Scripts"
  shows "flag t (snd (load_scripts n r))"
proof (cases r)
  case (Pair x s1)
  show ?thesis
  proof (cases x)
    case (Inl e)
    with Pair assms show ?thesis by (simp add: load_scripts_def)
  next
    case (Inr md)
    obtain e s2 where p: "patch_scripts s1 md = (e, s2)"
      by (cases "patch_scripts s1 md")
    from patch_keeps_flag(2) [OF p, of t] assms Pair have "flag t s2" by simp
    with Pair Inr p assms(2) show ?thesis
      by (cases e) (simp_all add: load_scripts_def store_module_def)
  qed
qed

lemma load_build_ext_keeps_flag:
  assumes "flag t (snd r)"
  shows "flag t (snd (load_build_ext n r))"
proof (cases r)
  case (Pair x s1)
  show ?thesis
  proof (cases x)
    case (Inl e)
    with Pair assms show ?thesis by (simp add: load_build_ext_def)
  next
    case (Inr md)
    obtain e s2 where p: "patch_build_ext s1 md = (e, s2)"
      by (cases "patch_build_ext s1 md")
    from patch_keeps_flag(3) [OF p, of t] assms Pair have "flag t s2" by simp
    with Pair Inr p show ?thesis
      by (cases e) (simp_all add: load_build_ext_def store_module_def)
  qed
qed

lemma load_wheel_keeps_flag:
  assumes "flag t (snd r)" and "t \<noteq> Wheel"
  shows "flag t (snd (load_wheel n r))"
proof (cases r)
  case (Pair x s1)
  show ?thesis
  proof (cases x)
    case (Inl e)
    with Pair assms show ?thesis by (simp add: load_wheel_def)
  next
    case (Inr md)
    obtain e s2 where p: "patch_wheel s1 md = (e, s2)"
      by (cases "patch_wheel s1 md")
    from patch_keeps_flag(4) [OF p, of t] assms Pair have "flag t s2" by simp
    with Pair Inr p assms(2) show ?thesis
      by (cases e) (simp_all add: load_wheel_def store_module_def)
  qed
qed

lemma load_legacy_keeps_flag:
  assumes "flag t (snd r)" and "t \<noteq> Legacy"
  shows "flag t (snd (load_legacy n r))"
proof (cases r)
  case (Pair x s1)
  show ?thesis
  proof (cases x)
    case (Inl e)
    with Pair assms show ?thesis by (simp add: load_legacy_def)
  next
    case (Inr md)
    obtain e s2 where p: "patch_legacy s1 md = (e, s2)"
      by (cases "patch_legacy s1 md")
    from patch_keeps_flag(5) [OF p, of t] assms Pair have "flag t s2" by simp
    with Pair Inr p assms(2) show ?thesis
      by (cases e) (simp_all add: load_legacy_def store_module_def)
  qed
qed

lemma default_import_keeps_flag:
  "flag t s \<Longrightarrow> flag t (snd (default_import h s n))"
  by (simp add: default_import_def split: option.splits)

lemma import_load_keep_flag:
  shows "flag t s \<Longrightarrow> flag t (snd (import_module h s n))"
    and "flag t s \<Longrightarrow> target_of n \<noteq> Some t \<Longrightarrow> flag t (snd (load_module h s n))"
proof (induction h s n and h s n rule: import_module_load_module.induct)
  case (1 h s n)
  show ?case
  proof (cases "sys_modules s n")
    case (Some m)
    with 1 show ?thesis by (simp add: import_module.simps)
  next
    case None
    have fl: "flag t (snd (find_module s n))"
      using "1.prems" by (rule find_module_keeps_flag)
    show ?thesis
    proof (cases "fst (find_module s n)")
      case True
      then obtain t' where t': "target_of n = Some t'" "\<not> flag t' s"
        by (auto simp: find_module_match)
      with "1.prems" have "target_of n \<noteq> Some t" by auto
      with None True "1.IH" fl show ?thesis by (simp add: import_module.simps)
    next
      case False
      with None fl show ?thesis
        by (simp add: import_module.simps default_import_keeps_flag)
    qed
  qed
next
  case (2 h s name)
  show ?case
  proof (cases name rule: target_cases)
    case sysconfig
    with "2.prems" have "t \<noteq> Sysconfig" by (auto simp: target_of_def)
    with sysconfig 2 show ?thesis
      by (simp add: load_module.simps [of h s] load_sysconfig_keeps_flag)
  next
    case scripts
    with "2.prems" have "t \<noteq> Scripts" by (auto simp: target_of_def)
    with scripts 2 show ?thesis
      by (simp add: load_module.simps [of h s] load_scripts_keeps_flag)
  next
    case build_ext
    with 2 show ?thesis
      by (simp add: load_module.simps [of h s] load_build_ext_keeps_flag)
  next
    case wheel
    with "2.prems" have "t \<noteq> Wheel" by (auto simp: target_of_def)
    with wheel 2 show ?thesis
      by (simp add: load_module.simps [of h s] load_wheel_keeps_flag)
  next
    case legacy
    with "2.prems" have "t \<noteq> Legacy" by (auto simp: target_of_def)
    with legacy 2 show ?thesis
      by (simp add: load_module.simps [of h s] load_legacy_keeps_flag)
  next
    case other
    with 2 show ?thesis
      by (simp add: load_module.simps [of h s])
  qed
qed

lemma pending_keeps_flag:
  "pending h t s u \<Longrightarrow> flag t s \<Longrightarrow> flag t u"
  by (induction rule: pending.induct)
     (simp_all add: find_module_keeps_flag import_load_keep_flag)

lemma target_of_imported_name:
  "target_of name = Some t \<Longrightarrow> target_of (imported_name name) = Some t"
  by (cases name rule: target_cases) (simp_all add: target_of_def imported_name_def)

lemma target_of_initial:
  "target_of name = Some t \<Longrightarrow> fst (find_module initial name)"
  by (cases name rule: target_cases) (simp_all add: target_of_def find_module_def initial_def)

lemma load_module_target:
  "load_module h u name =
     (case target_of name of
        Some Sysconfig \<Rightarrow> load_sysconfig h name (import_module h u (imported_name name))
      | Some Scripts \<Rightarrow> load_scripts name (import_module h u (imported_name name))
      | Some BuildExt \<Rightarrow> load_build_ext name (import_module h u (imported_name name))
      | Some Wheel \<Rightarrow> load_wheel name (import_module h u (imported_name name))
      | Some Legacy \<Rightarrow> load_legacy name (import_module h u (imported_name name))
      | None \<Rightarrow> (Inl (UnboundLocalError ''mod''), u))"
  by (cases name rule: target_cases)
     (simp_all add: load_module.simps [of h u] target_of_def imported_name_def)

lemma load_sysconfig_heap:
  assumes "load_sysconfig h name (r, si) = (Inr md, sa)"
  shows "r = Inr md \<and>
         (\<exists>f g. heap si md ''get_config_var'' = Some f \<and> heap si md ''get_paths'' = Some g \<and>
            heap sa = (heap si)(md := (heap si md)(''get_config_var'' \<mapsto> GetConfigVarWrapper f,
              ''_PIP_USE_SYSCONFIG'' \<mapsto> PyTrue,
              ''get_paths'' \<mapsto> GetPathsWrapper g (default_scheme h))))"
proof -
  from assms obtain sb where r: "r = Inr md" and p: "patch_sysconfig h si md = (None, sb)"
    and sa: "heap sa = heap sb"
    by (auto simp: load_sysconfig_def store_module_def split: sum.splits option.splits prod.splits)
  from p obtain f where f: "getattr si md ''get_config_var'' = Some f"
    by (auto simp: patch_sysconfig_def split: option.splits)
  define sm where "sm = setattr (setattr si md ''get_config_var'' (GetConfigVarWrapper f))
      md ''_PIP_USE_SYSCONFIG'' PyTrue"
  from p f obtain sch where sch: "get_scheme h sm md = Inr sch"
    by (auto simp: patch_sysconfig_def Let_def sm_def split: sum.splits)
  then have sch': "sch = default_scheme h" by (rule get_scheme_Inr)
  from p f sch obtain g where g: "getattr sm md ''get_paths'' = Some g"
    and sb: "sb = setattr sm md ''get_paths'' (GetPathsWrapper g sch)"
    by (auto simp: patch_sysconfig_def Let_def sm_def split: option.splits)
  from g have g': "heap si md ''get_paths'' = Some g"
    by (simp add: getattr_def sm_def heap_setattr)
  from f have f': "heap si md ''get_config_var'' = Some f"
    by (simp add: getattr_def)
  have "heap sa = (heap si)(md := (heap si md)(''get_config_var'' \<mapsto> GetConfigVarWrapper f,
              ''_PIP_USE_SYSCONFIG'' \<mapsto> PyTrue,
              ''get_paths'' \<mapsto> GetPathsWrapper g (default_scheme h)))"
    by (simp add: sa sb sm_def setattr_def sch')
  with r f' g' show ?thesis by blast
qed

lemma load_scripts_heap:
  assumes "load_scripts name (r, si) = (Inr md, sa)"
  shows "r = Inr md \<and>
         heap sa = (heap si)(md := (heap si md)(''ScriptMaker._build_shebang'' \<mapsto> BuildShebang))"
  using assms
  by (auto simp: load_scripts_def patch_scripts_def store_module_def getattr_def setattr_def
      split: sum.splits option.splits)

lemma load_build_ext_heap:
  assumes "load_build_ext name (r, si) = (Inr md, sa)"
  shows "r = Inr md \<and>
         (\<exists>f. heap si md ''build_ext.finalize_options'' = Some f \<and>
            heap sa = (heap si)(md := (heap si md)(''build_ext.finalize_options'' \<mapsto>
              FinalizeOptionsWrapper f)))"
  using assms
  by (auto simp: load_build_ext_def patch_build_ext_def store_module_def getattr_def setattr_def
      split: sum.splits option.splits)

lemma load_wheel_heap:
  assumes "load_wheel name (r, si) = (Inr md, sa)"
  shows "r = Inr md \<and>
         (\<exists>f. heap si md ''install_wheel'' = Some f \<and>
            heap sa = (heap si)(md := (heap si md)(''install_wheel'' \<mapsto> InstallWheelWrapper f)))"
  using assms
  by (auto simp: load_wheel_def patch_wheel_def store_module_def getattr_def setattr_def
      split: sum.splits option.splits)

lemma load_legacy_heap:
  assumes "load_legacy name (r, si) = (Inr md, sa)"
  shows "r = Inr md \<and>
         (\<exists>f. heap si md ''install'' = Some f \<and>
            heap sa = (heap si)(md := (heap si md)(''install'' \<mapsto> InstallLegacyWrapper f)))"
  using assms
  by (auto simp: load_legacy_def patch_legacy_def store_module_def getattr_def setattr_def
      split: sum.splits option.splits)

lemma sample_loads:
  "load_module sample_host (snd (find_module initial ''sysconfig'')) ''sysconfig'' =
     (Inr ''sysconfig'', probe_and_materialize sample_host initial ''sysconfig'')"
  "load_module sample_host (snd (find_module initial ''pip._internal.operations.install.wheel''))
       ''pip._internal.operations.install.wheel'' =
     (Inr ''pip._internal.operations.install.wheel'',
      probe_and_materialize sample_host initial ''pip._internal.operations.install.wheel'')"
  "load_module sample_host (snd (find_module initial ''pip._internal.operations.install.legacy''))
       ''pip._internal.operations.install.legacy'' =
     (Inr ''pip._internal.operations.install.legacy'',
      probe_and_materialize sample_host initial ''pip._internal.operations.install.legacy'')"
  "load_module sample_host (snd (find_module initial ''pip._vendor.distlib.scripts''))
       ''pip._vendor.distlib.scripts'' =
     (Inr ''pip._vendor.distlib.scripts'',
      probe_and_materialize sample_host initial ''pip._vendor.distlib.scripts'')"
  by (simp_all add: sample_run_defs)

lemma sample_targets:
  "target_of ''sysconfig'' = Some Sysconfig"
  "target_of ''pip._vendor.distlib.scripts'' = Some Scripts"
  "target_of ''distutils.command.build_ext'' = Some BuildExt"
  "target_of ''pip._internal.operations.install.wheel'' = Some Wheel"
  "target_of ''pip._internal.operations.install.legacy'' = Some Legacy"
  by (simp_all add: target_of_def)

lemma sample_imported_names:
  "imported_name ''sysconfig'' = ''sysconfig''"
  "imported_name ''pip._vendor.distlib.scripts'' = ''pip._vendor.distlib.scripts''"
  "imported_name ''distutils.command.build_ext'' = ''distutils.command.build_ext''"
  "imported_name ''pip._internal.operations.install.wheel'' =
     ''pip._internal.operations.install.wheel''"
  "imported_name ''pip._internal.operations.install.legacy'' =
     ''pip._internal.operations.install.legacy''"
  by (simp_all add: imported_name_def)

lemma sample_matches:
  "fst (find_module initial ''sysconfig'')"
  "fst (find_module initial ''pip._vendor.distlib.scripts'')"
  "fst (find_module initial ''distutils.command.build_ext'')"
  "fst (find_module initial ''pip._internal.operations.install.wheel'')"
  "fst (find_module initial ''pip._internal.operations.install.legacy'')"
  by (simp_all add: find_module_def initial_def)

lemma sample_load_build_ext:
  "load_module sample_host (snd (find_module initial ''distutils.command.build_ext''))
       ''distutils.command.build_ext'' =
     (Inr ''distutils.command.build_ext'',
      probe_and_materialize sample_host initial ''distutils.command.build_ext'')"
  by (simp add: sample_run_defs)

lemma sample_imports:
  "heap (snd (import_module sample_host (snd (find_module initial ''sysconfig'')) ''sysconfig''))
       ''sysconfig'' ''get_config_var'' = Some (Original ''sysconfig'' ''get_config_var'')"
  "heap (snd (import_module sample_host (snd (find_module initial ''sysconfig'')) ''sysconfig''))
       ''sysconfig'' ''get_paths'' = Some (Original ''sysconfig'' ''get_paths'')"
  "heap (snd (import_module sample_host
           (snd (find_module initial ''distutils.command.build_ext''))
           ''distutils.command.build_ext''))
       ''distutils.command.build_ext'' ''build_ext.finalize_options'' =
     Some (Original ''distutils.command.build_ext'' ''build_ext.finalize_options'')"
  "heap (snd (import_module sample_host
           (snd (find_module initial ''pip._internal.operations.install.wheel''))
           ''pip._internal.operations.install.wheel''))
       ''pip._internal.operations.install.wheel'' ''install_wheel'' =
     Some (Original ''pip._internal.operations.install.wheel'' ''install_wheel'')"
  "heap (snd (import_module sample_host
           (snd (find_module initial ''pip._internal.operations.install.legacy''))
           ''pip._internal.operations.install.legacy''))
       ''pip._internal.operations.install.legacy'' ''install'' =
     Some (Original ''pip._internal.operations.install.legacy'' ''install'')"
  by (simp_all add: sample_run_defs)

text \<open>
  Claim C1, amended. Let \<open>name\<close> be a name of target \<open>t\<close>, one of the five.
  \<^verbatim>\<open>find_module\<close> returns a match for it in the importer's initial state. Once
  \<^verbatim>\<open>find_module\<close> has returned a match for it in some state, then in every state \<open>u\<close>
  reached before the matching \<^verbatim>\<open>load_module\<close> (through further calls of
  \<^verbatim>\<open>find_module\<close>, imports, and \<^verbatim>\<open>load_module\<close> for other targets) \<^verbatim>\<open>find_module\<close>
  for that name returns no match and leaves the state as it is, and the import of the
  real module that \<^verbatim>\<open>load_module\<close> makes is answered from \<^verbatim>\<open>sys.modules\<close> or by the
  default finders, not handed to \<^verbatim>\<open>load_module\<close> again. When that \<^verbatim>\<open>load_module\<close>
  returns a module, it is the module that the import returned, and the attributes of
  all modules are those that the import left, but for one application of the patch
  of the target: \<^verbatim>\<open>get_config_var\<close> and \<^verbatim>\<open>get_paths\<close> wrapped once and
  \<^verbatim>\<open>_PIP_USE_SYSCONFIG\<close> set, \<^verbatim>\<open>ScriptMaker._build_shebang\<close> assigned,
  \<^verbatim>\<open>build_ext.finalize_options\<close>, \<^verbatim>\<open>install_wheel\<close> or \<^verbatim>\<open>install\<close> wrapped once. So one
  round of \<^verbatim>\<open>find_module\<close> and \<^verbatim>\<open>load_module\<close> applies the patch of its target once.
\<close>

theorem probe_once_while_patching:
  assumes "target_of name = Some t"
  shows "fst (find_module initial name) \<and>
         (fst (find_module s name) \<and> pending h t (snd (find_module s name)) u \<longrightarrow>
            find_module u name = (False, u) \<and>
            import_module h u (imported_name name) =
              (case sys_modules u (imported_name name) of
                 Some m \<Rightarrow> (Inr m, u)
               | None \<Rightarrow> default_import h u (imported_name name)) \<and>
            (load_module h u name = (Inr md, sa) \<longrightarrow>
               (\<exists>si. import_module h u (imported_name name) = (Inr md, si) \<and>
                  (t = Sysconfig \<longrightarrow>
                     (\<exists>f g. heap si md ''get_config_var'' = Some f \<and>
                        heap si md ''get_paths'' = Some g \<and>
                        heap sa = (heap si)(md := (heap si md)
                          (''get_config_var'' \<mapsto> GetConfigVarWrapper f,
                           ''_PIP_USE_SYSCONFIG'' \<mapsto> PyTrue,
                           ''get_paths'' \<mapsto> GetPathsWrapper g (default_scheme h))))) \<and>
                  (t = Scripts \<longrightarrow>
                     heap sa = (heap si)(md := (heap si md)
                       (''ScriptMaker._build_shebang'' \<mapsto> BuildShebang))) \<and>
                  (t = BuildExt \<longrightarrow>
                     (\<exists>f. heap si md ''build_ext.finalize_options'' = Some f \<and>
                        heap sa = (heap si)(md := (heap si md)
                          (''build_ext.finalize_options'' \<mapsto> FinalizeOptionsWrapper f)))) \<and>
                  (t = Wheel \<longrightarrow>
                     (\<exists>f. heap si md ''install_wheel'' = Some f \<and>
                        heap sa = (heap si)(md := (heap si md)
                          (''install_wheel'' \<mapsto> InstallWheelWrapper f)))) \<and>
                  (t = Legacy \<longrightarrow>
                     (\<exists>f. heap si md ''install'' = Some f \<and>
                        heap sa = (heap si)(md := (heap si md)
                          (''install'' \<mapsto> InstallLegacyWrapper f)))))))"
proof (intro conjI impI)
  show "fst (find_module initial name)"
    using assms by (rule target_of_initial)
next
  assume a: "fst (find_module s name) \<and> pending h t (snd (find_module s name)) u"
  then have "flag t (snd (find_module s name))"
    using assms by (simp add: find_module_sets_flag)
  with a have fl: "flag t u"
    by (blast intro: pending_keeps_flag)
  show "find_module u name = (False, u)"
    using assms fl by (rule find_module_flag_set)
next
  assume a: "fst (find_module s name) \<and> pending h t (snd (find_module s name)) u"
  then have "flag t (snd (find_module s name))"
    using assms by (simp add: find_module_sets_flag)
  with a have fl: "flag t u"
    by (blast intro: pending_keeps_flag)
  have "find_module u (imported_name name) = (False, u)"
    using target_of_imported_name [OF assms] fl by (rule find_module_flag_set)
  then have "\<not> fst (find_module u (imported_name name))" by simp
  then show "import_module h u (imported_name name) =
              (case sys_modules u (imported_name name) of
                 Some m \<Rightarrow> (Inr m, u)
               | None \<Rightarrow> default_import h u (imported_name name))"
    by (rule import_module_declined)
next
  assume l: "load_module h u name = (Inr md, sa)"
  obtain r si where i: "import_module h u (imported_name name) = (r, si)"
    by (cases "import_module h u (imported_name name)")
  have "r = Inr md \<and>
        (t = Sysconfig \<longrightarrow>
                     (\<exists>f g. heap si md ''get_config_var'' = Some f \<and>
                        heap si md ''get_paths'' = Some g \<and>
                        heap sa = (heap si)(md := (heap si md)
                          (''get_config_var'' \<mapsto> GetConfigVarWrapper f,
                           ''_PIP_USE_SYSCONFIG'' \<mapsto> PyTrue,
                           ''get_paths'' \<mapsto> GetPathsWrapper g (default_scheme h))))) \<and>
                  (t = Scripts \<longrightarrow>
                     heap sa = (heap si)(md := (heap si md)
                       (''ScriptMaker._build_shebang'' \<mapsto> BuildShebang))) \<and>
                  (t = BuildExt \<longrightarrow>
                     (\<exists>f. heap si md ''build_ext.finalize_options'' = Some f \<and>
                        heap sa = (heap si)(md := (heap si md)
                          (''build_ext.finalize_options'' \<mapsto> FinalizeOptionsWrapper f)))) \<and>
                  (t = Wheel \<longrightarrow>
                     (\<exists>f. heap si md ''install_wheel'' = Some f \<and>
                        heap sa = (heap si)(md := (heap si md)
                          (''install_wheel'' \<mapsto> InstallWheelWrapper f)))) \<and>
                  (t = Legacy \<longrightarrow>
                     (\<exists>f. heap si md ''install'' = Some f \<and>
                        heap sa = (heap si)(md := (heap si md)
                          (''install'' \<mapsto> InstallLegacyWrapper f))))"
  proof (cases t)
    case Sysconfig
    with l i assms have "load_sysconfig h name (r, si) = (Inr md, sa)"
      by (simp add: load_module_target)
    from load_sysconfig_heap [OF this] Sysconfig show ?thesis by simp
  next
    case Scripts
    with l i assms have "load_scripts name (r, si) = (Inr md, sa)"
      by (simp add: load_module_target)
    from load_scripts_heap [OF this] Scripts show ?thesis by simp
  next
    case BuildExt
    with l i assms have "load_build_ext name (r, si) = (Inr md, sa)"
      by (simp add: load_module_target)
    from load_build_ext_heap [OF this] BuildExt show ?thesis by simp
  next
    case Wheel
    with l i assms have "load_wheel name (r, si) = (Inr md, sa)"
      by (simp add: load_module_target)
    from load_wheel_heap [OF this] Wheel show ?thesis by simp
  next
    case Legacy
    with l i assms have "load_legacy name (r, si) = (Inr md, sa)"
      by (simp add: load_module_target)
    from load_legacy_heap [OF this] Legacy show ?thesis by simp
  qed
  with i show "\<exists>si. import_module h u (imported_name name) = (Inr md, si) \<and>
                  (t = Sysconfig \<longrightarrow>
                     (\<exists>f g. heap si md ''get_config_var'' = Some f \<and>
                        heap si md ''get_paths'' = Some g \<and>
                        heap sa = (heap si)(md := (heap si md)
                          (''get_config_var'' \<mapsto> GetConfigVarWrapper f,
                           ''_PIP_USE_SYSCONFIG'' \<mapsto> PyTrue,
                           ''get_paths'' \<mapsto> GetPathsWrapper g (default_scheme h))))) \<and>
                  (t = Scripts \<longrightarrow>
                     heap sa = (heap si)(md := (heap si md)
                       (''ScriptMaker._build_shebang'' \<mapsto> BuildShebang))) \<and>
                  (t = BuildExt \<longrightarrow>
                     (\<exists>f. heap si md ''build_ext.finalize_options'' = Some f \<and>
                        heap sa = (heap si)(md := (heap si md)
                          (''build_ext.finalize_options'' \<mapsto> FinalizeOptionsWrapper f)))) \<and>
                  (t = Wheel \<longrightarrow>
                     (\<exists>f. heap si md ''install_wheel'' = Some f \<and>
                        heap sa = (heap si)(md := (heap si md)
                          (''install_wheel'' \<mapsto> InstallWheelWrapper f)))) \<and>
                  (t = Legacy \<longrightarrow>
                     (\<exists>f. heap si md ''install'' = Some f \<and>
                        heap sa = (heap si)(md := (heap si md)
                          (''install'' \<mapsto> InstallLegacyWrapper f))))"
    by blast
qed

theorem probe_once_while_patching_witness:
  "find_module
     (snd (load_module sample_host
        (snd (find_module (snd (find_module initial ''pip._internal.operations.install.wheel''))
           ''pip._internal.operations.install.legacy''))
        ''pip._internal.operations.install.legacy''))
     ''pip._internal.operations.install.wheel'' =
     (False,
      snd (load_module sample_host
        (snd (find_module (snd (find_module initial ''pip._internal.operations.install.wheel''))
           ''pip._internal.operations.install.legacy''))
        ''pip._internal.operations.install.legacy'')) \<and>
   heap (probe_and_materialize sample_host initial ''sysconfig'') ''sysconfig'' ''get_config_var'' =
     Some (GetConfigVarWrapper (Original ''sysconfig'' ''get_config_var'')) \<and>
   heap (probe_and_materialize sample_host initial ''sysconfig'') ''sysconfig'' ''get_paths'' =
     Some (GetPathsWrapper (Original ''sysconfig'' ''get_paths'') ''posix_prefix'') \<and>
   heap (probe_and_materialize sample_host initial ''pip._vendor.distlib.scripts'')
       ''pip._vendor.distlib.scripts'' ''ScriptMaker._build_shebang'' = Some BuildShebang \<and>
   heap (probe_and_materialize sample_host initial ''distutils.command.build_ext'')
       ''distutils.command.build_ext'' ''build_ext.finalize_options'' =
     Some (FinalizeOptionsWrapper
            (Original ''distutils.command.build_ext'' ''build_ext.finalize_options'')) \<and>
   heap (probe_and_materialize sample_host initial ''pip._internal.operations.install.wheel'')
       ''pip._internal.operations.install.wheel'' ''install_wheel'' =
     Some (InstallWheelWrapper
            (Original ''pip._internal.operations.install.wheel'' ''install_wheel'')) \<and>
   heap (probe_and_materialize sample_host initial ''pip._internal.operations.install.legacy'')
       ''pip._internal.operations.install.legacy'' ''install'' =
     Some (InstallLegacyWrapper (Original ''pip._internal.operations.install.legacy'' ''install''))"
proof -
  have ds: "default_scheme sample_host = ''posix_prefix''"
    by (simp add: sample_host_def)
  have p: "pending sample_host Wheel
      (snd (find_module initial ''pip._internal.operations.install.wheel''))
      (snd (load_module sample_host
        (snd (find_module (snd (find_module initial ''pip._internal.operations.install.wheel''))
           ''pip._internal.operations.install.legacy''))
        ''pip._internal.operations.install.legacy''))"
    by (intro pending_load pending_find pending_start) (simp add: sample_targets)
  have c1: "find_module
     (snd (load_module sample_host
        (snd (find_module (snd (find_module initial ''pip._internal.operations.install.wheel''))
           ''pip._internal.operations.install.legacy''))
        ''pip._internal.operations.install.legacy''))
     ''pip._internal.operations.install.wheel'' =
     (False,
      snd (load_module sample_host
        (snd (find_module (snd (find_module initial ''pip._internal.operations.install.wheel''))
           ''pip._internal.operations.install.legacy''))
        ''pip._internal.operations.install.legacy''))"
    using probe_once_while_patching [OF sample_targets(4), where s = initial and h = sample_host
        and u = "snd (load_module sample_host
          (snd (find_module (snd (find_module initial ''pip._internal.operations.install.wheel''))
             ''pip._internal.operations.install.legacy''))
          ''pip._internal.operations.install.legacy'')"]
      sample_matches(4) p
    by simp
  have c2: "heap (probe_and_materialize sample_host initial ''sysconfig'') ''sysconfig''
        ''get_config_var'' = Some (GetConfigVarWrapper (Original ''sysconfig'' ''get_config_var'')) \<and>
      heap (probe_and_materialize sample_host initial ''sysconfig'') ''sysconfig'' ''get_paths'' =
        Some (GetPathsWrapper (Original ''sysconfig'' ''get_paths'') ''posix_prefix'')"
  proof -
    from probe_once_while_patching [OF sample_targets(1), where s = initial
        and h = sample_host and u = "snd (find_module initial ''sysconfig'')"
        and md = "''sysconfig''"
        and sa = "probe_and_materialize sample_host initial ''sysconfig''"]
      sample_matches(1) sample_loads(1)
      pending_start [of sample_host Sysconfig "snd (find_module initial ''sysconfig'')"]
    obtain si f g where
      i: "import_module sample_host (snd (find_module initial ''sysconfig'')) (imported_name ''sysconfig'') = (Inr ''sysconfig'', si)"
      and f: "heap si ''sysconfig'' ''get_config_var'' = Some f"
      and g: "heap si ''sysconfig'' ''get_paths'' = Some g"
      and hp: "heap (probe_and_materialize sample_host initial ''sysconfig'') = (heap si)(''sysconfig'' := (heap si ''sysconfig'')(''get_config_var'' \<mapsto> GetConfigVarWrapper f,
          ''_PIP_USE_SYSCONFIG'' \<mapsto> PyTrue,
          ''get_paths'' \<mapsto> GetPathsWrapper g (default_scheme sample_host)))"
      by blast
    from i sample_imports(1,2) have "f = Original ''sysconfig'' ''get_config_var''" "g = Original ''sysconfig'' ''get_paths''"
      using f g by (simp_all add: sample_imported_names)
    with hp show ?thesis by (simp add: ds)
  qed
  have c3: "heap (probe_and_materialize sample_host initial ''pip._vendor.distlib.scripts'')
       ''pip._vendor.distlib.scripts'' ''ScriptMaker._build_shebang'' = Some BuildShebang"
  proof -
    from probe_once_while_patching [OF sample_targets(2), where s = initial
        and h = sample_host and u = "snd (find_module initial ''pip._vendor.distlib.scripts'')"
        and md = "''pip._vendor.distlib.scripts''"
        and sa = "probe_and_materialize sample_host initial ''pip._vendor.distlib.scripts''"]
      sample_matches(2) sample_loads(4)
      pending_start [of sample_host Scripts "snd (find_module initial ''pip._vendor.distlib.scripts'')"]
    obtain si  where
      i: "import_module sample_host (snd (find_module initial ''pip._vendor.distlib.scripts'')) (imported_name ''pip._vendor.distlib.scripts'') = (Inr ''pip._vendor.distlib.scripts'', si)"
      and hp: "heap (probe_and_materialize sample_host initial ''pip._vendor.distlib.scripts'') = (heap si)(''pip._vendor.distlib.scripts'' := (heap si ''pip._vendor.distlib.scripts'')(''ScriptMaker._build_shebang'' \<mapsto> BuildShebang))"
      by blast
    from hp show ?thesis by simp
  qed
  have c4: "heap (probe_and_materialize sample_host initial ''distutils.command.build_ext'')
       ''distutils.command.build_ext'' ''build_ext.finalize_options'' =
     Some (FinalizeOptionsWrapper
            (Original ''distutils.command.build_ext'' ''build_ext.finalize_options''))"
  proof -
    from probe_once_while_patching [OF sample_targets(3), where s = initial
        and h = sample_host and u = "snd (find_module initial ''distutils.command.build_ext'')"
        and md = "''distutils.command.build_ext''"
        and sa = "probe_and_materialize sample_host initial ''distutils.command.build_ext''"]
      sample_matches(3) sample_load_build_ext
      pending_start [of sample_host BuildExt "snd (find_module initial ''distutils.command.build_ext'')"]
    obtain si f where
      i: "import_module sample_host (snd (find_module initial ''distutils.command.build_ext'')) (imported_name ''distutils.command.build_ext'') = (Inr ''distutils.command.build_ext'', si)"
      and f: "heap si ''distutils.command.build_ext'' ''build_ext.finalize_options'' = Some f"
      and hp: "heap (probe_and_materialize sample_host initial ''distutils.command.build_ext'') = (heap si)(''distutils.command.build_ext'' := (heap si ''distutils.command.build_ext'')(''build_ext.finalize_options'' \<mapsto> FinalizeOptionsWrapper f))"
      by blast
    from i sample_imports(3) have "f = Original ''distutils.command.build_ext'' ''build_ext.finalize_options''"
      using f by (simp_all add: sample_imported_names)
    with hp show ?thesis by (simp add: ds)
  qed
  have c5: "heap (probe_and_materialize sample_host initial ''pip._internal.operations.install.wheel'')
       ''pip._internal.operations.install.wheel'' ''install_wheel'' =
     Some (InstallWheelWrapper
            (Original ''pip._internal.operations.install.wheel'' ''install_wheel''))"
  proof -
    from probe_once_while_patching [OF sample_targets(4), where s = initial
        and h = sample_host and u = "snd (find_module initial ''pip._internal.operations.install.wheel'')"
        and md = "''pip._internal.operations.install.wheel''"
        and sa = "probe_and_materialize sample_host initial ''pip._internal.operations.install.wheel''"]
      sample_matches(4) sample_loads(2)
      pending_start [of sample_host Wheel "snd (find_module initial ''pip._internal.operations.install.wheel'')"]
    obtain si f where
      i: "import_module sample_host (snd (find_module initial ''pip._internal.operations.install.wheel'')) (imported_name ''pip._internal.operations.install.wheel'') = (Inr ''pip._internal.operations.install.wheel'', si)"
      and f: "heap si ''pip._internal.operations.install.wheel'' ''install_wheel'' = Some f"
      and hp: "heap (probe_and_materialize sample_host initial ''pip._internal.operations.install.wheel'') = (heap si)(''pip._internal.operations.install.wheel'' := (heap si ''pip._internal.operations.install.wheel'')(''install_wheel'' \<mapsto> InstallWheelWrapper f))"
      by blast
    from i sample_imports(4) have "f = Original ''pip._internal.operations.install.wheel'' ''install_wheel''"
      using f by (simp_all add: sample_imported_names)
    with hp show ?thesis by (simp add: ds)
  qed
  have c6: "heap (probe_and_materialize sample_host initial ''pip._internal.operations.install.legacy'')
       ''pip._internal.operations.install.legacy'' ''install'' =
     Some (InstallLegacyWrapper (Original ''pip._internal.operations.install.legacy'' ''install''))"
  proof -
    from probe_once_while_patching [OF sample_targets(5), where s = initial
        and h = sample_host and u = "snd (find_module initial ''pip._internal.operations.install.legacy'')"
        and md = "''pip._internal.operations.install.legacy''"
        and sa = "probe_and_materialize sample_host initial ''pip._internal.operations.install.legacy''"]
      sample_matches(5) sample_loads(3)
      pending_start [of sample_host Legacy "snd (find_module initial ''pip._internal.operations.install.legacy'')"]
    obtain si f where
      i: "import_module sample_host (snd (find_module initial ''pip._internal.operations.install.legacy'')) (imported_name ''pip._internal.operations.install.legacy'') = (Inr ''pip._internal.operations.install.legacy'', si)"
      and f: "heap si ''pip._internal.operations.install.legacy'' ''install'' = Some f"
      and hp: "heap (probe_and_materialize sample_host initial ''pip._internal.operations.install.legacy'') = (heap si)(''pip._internal.operations.install.legacy'' := (heap si ''pip._internal.operations.install.legacy'')(''install'' \<mapsto> InstallLegacyWrapper f))"
      by blast
    from i sample_imports(5) have "f = Original ''pip._internal.operations.install.legacy'' ''install''"
      using f by (simp_all add: sample_imported_names)
    with hp show ?thesis by (simp add: ds)
  qed
  from c1 c2 c3 c4 c5 c6 show ?thesis by blast
qed

text \<open>
  Claim C10, as stated, has the second \<^verbatim>\<open>load_module\<close> of each of the four
  targets whose flag is reset wrap the already-wrapped function. For
  \<^verbatim>\<open>pip._vendor.distlib.scripts\<close> the patch is a plain assignment of the layer's
  \<^verbatim>\<open>_build_shebang\<close>: after the second round the attribute holds the same function
  as after the first, and nothing is wrapped.
\<close>

theorem scripts_repatch_counterexample:
  "fst (find_module initial ''pip._vendor.distlib.scripts'') \<and>
   heap (probe_and_materialize sample_host initial ''pip._vendor.distlib.scripts'')
       ''pip._vendor.distlib.scripts'' ''ScriptMaker._build_shebang'' = Some BuildShebang \<and>
   fst (find_module (probe_and_materialize sample_host initial ''pip._vendor.distlib.scripts'')
          ''pip._vendor.distlib.scripts'') \<and>
   heap (probe_and_materialize sample_host
          (probe_and_materialize sample_host initial ''pip._vendor.distlib.scripts'')
          ''pip._vendor.distlib.scripts'')
       ''pip._vendor.distlib.scripts'' ''ScriptMaker._build_shebang'' = Some BuildShebang"
  by (simp add: sample_run_defs)

lemma probe_sets_distutils:
  "fst (find_module s ''distutils.command.build_ext'') \<Longrightarrow>
   loading_distutils (snd (find_module s ''distutils.command.build_ext''))"
  by (simp add: find_module_def split: if_split_asm)

text \<open>
  Claim C10, amended. After a matching \<^verbatim>\<open>find_module\<close> and the \<^verbatim>\<open>load_module\<close> for
  \<^verbatim>\<open>distutils.command.build_ext\<close>, every later \<^verbatim>\<open>find_module\<close> for that name returns
  no match, whatever calls come in between. For each of the other four targets a
  \<^verbatim>\<open>load_module\<close> that returns leaves the flag reset, so \<^verbatim>\<open>find_module\<close> for the
  same name matches again and \<^verbatim>\<open>load_module\<close> returns again and patches a second
  time: for the configuration module, the binary-package installer and the legacy
  installer it wraps the already-wrapped function; for the script generator it
  assigns the same \<^verbatim>\<open>_build_shebang\<close> again.
\<close>

theorem flags_after_materialize:
  "(fst (find_module s ''distutils.command.build_ext'') \<and>
    later h (probe_and_materialize h s ''distutils.command.build_ext'') t \<longrightarrow>
      find_module t ''distutils.command.build_ext'' = (False, t)) \<and>
   (startswith n ''sysconfig'' \<and> load_module h s n = (Inr md, sa) \<longrightarrow>
      \<not> loading_sysconfig sa \<and> fst (find_module sa n) \<and>
      fst (load_module h (snd (find_module sa n)) n) = Inr md \<and>
      (\<exists>f. heap sa md ''get_config_var'' = Some (GetConfigVarWrapper f) \<and>
           heap (probe_and_materialize h sa n) md ''get_config_var'' =
             Some (GetConfigVarWrapper (GetConfigVarWrapper f))) \<and>
      (\<exists>g. heap sa md ''get_paths'' = Some (GetPathsWrapper g (default_scheme h)) \<and>
           heap (probe_and_materialize h sa n) md ''get_paths'' =
             Some (GetPathsWrapper (GetPathsWrapper g (default_scheme h)) (default_scheme h)))) \<and>
   (load_module h s ''pip._internal.operations.install.wheel'' = (Inr md, sa) \<longrightarrow>
      \<not> loading_op_wheel sa \<and>
      fst (find_module sa ''pip._internal.operations.install.wheel'') \<and>
      fst (load_module h (snd (find_module sa ''pip._internal.operations.install.wheel''))
             ''pip._internal.operations.install.wheel'') = Inr md \<and>
      (\<exists>f. heap sa md ''install_wheel'' = Some (InstallWheelWrapper f) \<and>
           heap (probe_and_materialize h sa ''pip._internal.operations.install.wheel'') md
               ''install_wheel'' =
             Some (InstallWheelWrapper (InstallWheelWrapper f)))) \<and>
   (load_module h s ''pip._internal.operations.install.legacy'' = (Inr md, sa) \<longrightarrow>
      \<not> loading_op_legacy sa \<and>
      fst (find_module sa ''pip._internal.operations.install.legacy'') \<and>
      fst (load_module h (snd (find_module sa ''pip._internal.operations.install.legacy''))
             ''pip._internal.operations.install.legacy'') = Inr md \<and>
      (\<exists>f. heap sa md ''install'' = Some (InstallLegacyWrapper f) \<and>
           heap (probe_and_materialize h sa ''pip._internal.operations.install.legacy'') md
               ''install'' =
             Some (InstallLegacyWrapper (InstallLegacyWrapper f)))) \<and>
   (load_module h s ''pip._vendor.distlib.scripts'' = (Inr md, sa) \<longrightarrow>
      \<not> loading_pip_scripts sa \<and>
      fst (find_module sa ''pip._vendor.distlib.scripts'') \<and>
      fst (load_module h (snd (find_module sa ''pip._vendor.distlib.scripts''))
             ''pip._vendor.distlib.scripts'') = Inr md \<and>
      heap sa md ''ScriptMaker._build_shebang'' = Some BuildShebang \<and>
      heap (probe_and_materialize h sa ''pip._vendor.distlib.scripts'') md
          ''ScriptMaker._build_shebang'' = Some BuildShebang)"
proof (intro conjI impI)
  assume a: "fst (find_module s ''distutils.command.build_ext'') \<and>
    later h (probe_and_materialize h s ''distutils.command.build_ext'') t"
  then have "loading_distutils (snd (find_module s ''distutils.command.build_ext''))"
    by (simp add: probe_sets_distutils)
  then have "loading_distutils (probe_and_materialize h s ''distutils.command.build_ext'')"
    by (simp add: probe_and_materialize_def import_load_keep_distutils)
  with a have "loading_distutils t"
    by (blast intro: later_keeps_distutils)
  then show "find_module t ''distutils.command.build_ext'' = (False, t)"
    by (rule find_module_distutils_set)
next
  assume a: "startswith n ''sysconfig'' \<and> load_module h s n = (Inr md, sa)"
  then have n: "startswith n ''sysconfig''" and l: "load_module h s n = (Inr md, sa)"
    by simp_all
  from load_module_sysconfig_result [OF n l] obtain f g where
    r: "\<not> loading_sysconfig sa" "sys_modules sa ''sysconfig'' = Some md"
      "heap sa md ''get_config_var'' = Some (GetConfigVarWrapper f)"
      "heap sa md ''get_paths'' = Some (GetPathsWrapper g (default_scheme h))"
      "get_scheme h sa md = Inr (default_scheme h)"
    by blast
  note again = load_module_sysconfig_again [OF n r]
  show "\<not> loading_sysconfig sa" by (rule r(1))
  show "fst (find_module sa n)" using again by simp
  show "fst (load_module h (snd (find_module sa n)) n) = Inr md" using again by simp
  show "\<exists>f. heap sa md ''get_config_var'' = Some (GetConfigVarWrapper f) \<and>
           heap (probe_and_materialize h sa n) md ''get_config_var'' =
             Some (GetConfigVarWrapper (GetConfigVarWrapper f))"
    using again r(3) by (simp add: probe_and_materialize_def)
  show "\<exists>g. heap sa md ''get_paths'' = Some (GetPathsWrapper g (default_scheme h)) \<and>
           heap (probe_and_materialize h sa n) md ''get_paths'' =
             Some (GetPathsWrapper (GetPathsWrapper g (default_scheme h)) (default_scheme h))"
    using again r(4) by (simp add: probe_and_materialize_def)
next
  assume l: "load_module h s ''pip._internal.operations.install.wheel'' = (Inr md, sa)"
  from load_module_wheel_result [OF l] obtain f where
    r: "\<not> loading_op_wheel sa"
      "sys_modules sa ''pip._internal.operations.install.wheel'' = Some md"
      "heap sa md ''install_wheel'' = Some (InstallWheelWrapper f)"
    by blast
  note again = load_module_wheel_again [OF r, of h]
  show "\<not> loading_op_wheel sa" by (rule r(1))
  show "fst (find_module sa ''pip._internal.operations.install.wheel'')" using again by simp
  show "fst (load_module h (snd (find_module sa ''pip._internal.operations.install.wheel''))
             ''pip._internal.operations.install.wheel'') = Inr md" using again by simp
  show "\<exists>f. heap sa md ''install_wheel'' = Some (InstallWheelWrapper f) \<and>
           heap (probe_and_materialize h sa ''pip._internal.operations.install.wheel'') md
               ''install_wheel'' =
             Some (InstallWheelWrapper (InstallWheelWrapper f))"
    using again r(3) by (simp add: probe_and_materialize_def)
next
  assume l: "load_module h s ''pip._internal.operations.install.legacy'' = (Inr md, sa)"
  from load_module_legacy_result [OF l] obtain f where
    r: "\<not> loading_op_legacy sa"
      "sys_modules sa ''pip._internal.operations.install.legacy'' = Some md"
      "heap sa md ''install'' = Some (InstallLegacyWrapper f)"
    by blast
  note again = load_module_legacy_again [OF r, of h]
  show "\<not> loading_op_legacy sa" by (rule r(1))
  show "fst (find_module sa ''pip._internal.operations.install.legacy'')" using again by simp
  show "fst (load_module h (snd (find_module sa ''pip._internal.operations.install.legacy''))
             ''pip._internal.operations.install.legacy'') = Inr md" using again by simp
  show "\<exists>f. heap sa md ''install'' = Some (InstallLegacyWrapper f) \<and>
           heap (probe_and_materialize h sa ''pip._internal.operations.install.legacy'') md
               ''install'' =
             Some (InstallLegacyWrapper (InstallLegacyWrapper f))"
    using again r(3) by (simp add: probe_and_materialize_def)
next
  assume l: "load_module h s ''pip._vendor.distlib.scripts'' = (Inr md, sa)"
  from load_module_scripts_result [OF l] obtain c where
    r: "\<not> loading_pip_scripts sa"
      "sys_modules sa ''pip._vendor.distlib.scripts'' = Some md"
      "heap sa md ''ScriptMaker'' = Some c"
    and b: "heap sa md ''ScriptMaker._build_shebang'' = Some BuildShebang"
    by blast
  note again = load_module_scripts_again [OF r, of h]
  show "\<not> loading_pip_scripts sa" by (rule r(1))
  show "fst (find_module sa ''pip._vendor.distlib.scripts'')" using again by simp
  show "fst (load_module h (snd (find_module sa ''pip._vendor.distlib.scripts''))
             ''pip._vendor.distlib.scripts'') = Inr md" using again by simp
  show "heap sa md ''ScriptMaker._build_shebang'' = Some BuildShebang" by (rule b)
  show "heap (probe_and_materialize h sa ''pip._vendor.distlib.scripts'') md
          ''ScriptMaker._build_shebang'' = Some BuildShebang"
    using again by (simp add: probe_and_materialize_def)
qed

theorem flags_after_materialize_witness:
  "find_module
     (snd (import_module sample_host
        (probe_and_materialize sample_host initial ''distutils.command.build_ext'')
        ''distutils.command.build_ext''))
     ''distutils.command.build_ext'' =
     (False, snd (import_module sample_host
        (probe_and_materialize sample_host initial ''distutils.command.build_ext'')
        ''distutils.command.build_ext'')) \<and>
   heap (probe_and_materialize sample_host
          (probe_and_materialize sample_host initial ''sysconfig'') ''sysconfig'')
       ''sysconfig'' ''get_config_var'' =
     Some (GetConfigVarWrapper (GetConfigVarWrapper (Original ''sysconfig'' ''get_config_var''))) \<and>
   heap (probe_and_materialize sample_host
          (probe_and_materialize sample_host initial ''pip._internal.operations.install.wheel'')
          ''pip._internal.operations.install.wheel'')
       ''pip._internal.operations.install.wheel'' ''install_wheel'' =
     Some (InstallWheelWrapper (InstallWheelWrapper
            (Original ''pip._internal.operations.install.wheel'' ''install_wheel''))) \<and>
   heap (probe_and_materialize sample_host
          (probe_and_materialize sample_host initial ''pip._internal.operations.install.legacy'')
          ''pip._internal.operations.install.legacy'')
       ''pip._internal.operations.install.legacy'' ''install'' =
     Some (InstallLegacyWrapper (InstallLegacyWrapper
            (Original ''pip._internal.operations.install.legacy'' ''install''))) \<and>
   heap (probe_and_materialize sample_host
          (probe_and_materialize sample_host initial ''pip._vendor.distlib.scripts'')
          ''pip._vendor.distlib.scripts'')
       ''pip._vendor.distlib.scripts'' ''ScriptMaker._build_shebang'' = Some BuildShebang"
proof -
  have p: "fst (find_module initial ''distutils.command.build_ext'')"
    by (simp add: find_module_def initial_def)
  have l: "later sample_host
      (probe_and_materialize sample_host initial ''distutils.command.build_ext'')
      (snd (import_module sample_host
        (probe_and_materialize sample_host initial ''distutils.command.build_ext'')
        ''distutils.command.build_ext''))"
    by (rule later_import) (rule later_start)
  have s: "startswith ''sysconfig'' ''sysconfig''" by simp
  have f1: "heap (probe_and_materialize sample_host initial ''sysconfig'')
       ''sysconfig'' ''get_config_var'' =
     Some (GetConfigVarWrapper (Original ''sysconfig'' ''get_config_var''))"
    by (simp add: sample_run_defs)
  have f2: "heap (probe_and_materialize sample_host initial
        ''pip._internal.operations.install.wheel'')
       ''pip._internal.operations.install.wheel'' ''install_wheel'' =
     Some (InstallWheelWrapper
            (Original ''pip._internal.operations.install.wheel'' ''install_wheel''))"
    by (simp add: sample_run_defs)
  have f3: "heap (probe_and_materialize sample_host initial
        ''pip._internal.operations.install.legacy'')
       ''pip._internal.operations.install.legacy'' ''install'' =
     Some (InstallLegacyWrapper (Original ''pip._internal.operations.install.legacy'' ''install''))"
    by (simp add: sample_run_defs)
  show ?thesis
    using
      flags_after_materialize [where h = sample_host and s = initial
        and t = "snd (import_module sample_host
            (probe_and_materialize sample_host initial ''distutils.command.build_ext'')
            ''distutils.command.build_ext'')"
        and n = "''sysconfig''" and md = "''x''" and sa = initial]
      flags_after_materialize [where h = sample_host
        and s = "snd (find_module initial ''sysconfig'')" and t = initial
        and n = "''sysconfig''" and md = "''sysconfig''"
        and sa = "probe_and_materialize sample_host initial ''sysconfig''"]
      flags_after_materialize [where h = sample_host
        and s = "snd (find_module initial ''pip._internal.operations.install.wheel'')"
        and t = initial and n = "''x''" and md = "''pip._internal.operations.install.wheel''"
        and sa = "probe_and_materialize sample_host initial
            ''pip._internal.operations.install.wheel''"]
      flags_after_materialize [where h = sample_host
        and s = "snd (find_module initial ''pip._internal.operations.install.legacy'')"
        and t = initial and n = "''x''" and md = "''pip._internal.operations.install.legacy''"
        and sa = "probe_and_materialize sample_host initial
            ''pip._internal.operations.install.legacy''"]
      flags_after_materialize [where h = sample_host
        and s = "snd (find_module initial ''pip._vendor.distlib.scripts'')"
        and t = initial and n = "''x''" and md = "''pip._vendor.distlib.scripts''"
        and sa = "probe_and_materialize sample_host initial ''pip._vendor.distlib.scripts''"]
      p l s f1 f2 f3 sample_loads
    by simp
qed

section \<open>Properties of the bootstrap sequencer\<close>

lemma environ_cross_target [simp]: "environ (cross_target w p) = environ p"
  by (simp add: cross_target_def Let_def)

lemma spawned_cross_target [simp]: "spawned (cross_target w p) = spawned p"
  by (simp add: cross_target_def Let_def)






lemma fst_bootstrap:
  "fst (bootstrap w p) = fst (discover_certs w (cross_target w p))"
  by (simp add: bootstrap_def split: prod.splits option.splits)

lemma discover_certs_raises:
  "(fst (discover_certs w p) \<noteq> None) =
     (\<not> environ_contains (environ p) ''SSL_CERT_DIR'' \<and> sys_platform w \<noteq> ''win32'' \<and>
      (\<exists>b. which_openssl w = Some b \<and> b \<noteq> []) \<and> returncode (run_openssl w) = 0 \<and>
      length (split_on (CHR '':'') (proc_stdout (run_openssl w))) \<noteq> 2)"
  by (auto simp: discover_certs_def Let_def split: option.splits list.splits)

lemmas bootstrap_run_defs = bootstrap_def discover_certs_def cross_target_def set_cert_vars_def
  openssl_os_def sample_process_def environ_contains_def environ_get_truthy_def Let_def
  debug_def strip_def strip_chars_def is_space_def path_of_str_def posix_root_def joinstr_def
  joinpath_def str_of_path_def

text \<open>
  Claim C2 says that \<^verbatim>\<open>bootstrap()\<close> never raises, whatever the discovery subprocess
  prints. When openssl is found and exits with status 0, output that does not split
  at colons into exactly two fields makes the unpacking raise \<^verbatim>\<open>ValueError\<close>: nothing
  is printed and the importer is not installed.
\<close>

theorem bootstrap_unparsable_output_raises:
  "fst (bootstrap (openssl_os ''OPENSSLDIR /usr/lib/ssl'') (sample_process Map.empty)) =
     Some (ValueError ''not enough values to unpack (expected 2, got 1)'') \<and>
   fst (bootstrap (openssl_os ''OPENSSLDIR: /usr/lib/ssl:/etc/ssl'') (sample_process Map.empty)) =
     Some (ValueError ''too many values to unpack (expected 2)'') \<and>
   fst (bootstrap (openssl_os []) (sample_process Map.empty)) =
     Some (ValueError ''not enough values to unpack (expected 2, got 1)'') \<and>
   sys_meta_path (snd (bootstrap (openssl_os []) (sample_process Map.empty))) =
     [HostFinder ''PathFinder'']"
  by (simp add: bootstrap_run_defs)

text \<open>These are the only runs in which \<^verbatim>\<open>bootstrap()\<close> raises.\<close>

lemma bootstrap_raises_iff:
  "(fst (bootstrap w p) \<noteq> None) =
     (\<not> environ_contains (environ p) ''SSL_CERT_DIR'' \<and> sys_platform w \<noteq> ''win32'' \<and>
      (\<exists>b. which_openssl w = Some b \<and> b \<noteq> []) \<and> returncode (run_openssl w) = 0 \<and>
      length (split_on (CHR '':'') (proc_stdout (run_openssl w))) \<noteq> 2)"
  using discover_certs_raises [of w "cross_target w p"] by (simp add: fst_bootstrap)




end
